theory Spec2Isabelle
  imports Main "HOL-Library.Multiset"
begin

section \<open>JavaScript values used by the mail client\<close>

text \<open>
  The client is TypeScript running on Node. Numbers that the code handles (ports, UIDs,
  message counts, page numbers) are integers and are modelled as \<open>int\<close>; the one
  place where a number can be \<open>NaN\<close> (the result of \<open>parseInt\<close>) is an
  \<open>int option\<close> with \<open>None\<close> for \<open>NaN\<close>. A value that may be \<open>undefined\<close> is an
  \<open>option\<close>. An exception is a value of type \<open>error\<close>, and a function that can throw
  returns \<open>error + 'a\<close> with \<open>Inl\<close> for the exception.
\<close>

datatype error = Error string | RangeError string

text \<open>Truthiness of a \<open>string | undefined\<close>: defined and not the empty string.\<close>

fun truthy :: "string option \<Rightarrow> bool" where
  "truthy None = False"
| "truthy (Some s) = (s \<noteq> [])"

text \<open>The nullish coalescing operator \<open>a ?? b\<close>, with a defined and with an optional right side.\<close>

fun nullish :: "'a option \<Rightarrow> 'a \<Rightarrow> 'a" where
  "nullish None b = b"
| "nullish (Some a) b = a"

fun nullish_opt :: "'a option \<Rightarrow> 'a option \<Rightarrow> 'a option" where
  "nullish_opt None b = b"
| "nullish_opt (Some a) b = Some a"

subsection \<open>\<open>String(n)\<close> and \<open>parseInt(s, 10)\<close>\<close>

fun digitsOf :: "nat \<Rightarrow> string" where
  "digitsOf n =
     (if n < 10 then [char_of (48 + n)]
      else digitsOf (n div 10) @ [char_of (48 + n mod 10)])"

declare digitsOf.simps [simp del]

text \<open>\<open>String(n)\<close> for an integer \<open>n\<close>: its decimal digits, with a minus sign when negative.\<close>

definition String_of_int :: "int \<Rightarrow> string" where
  "String_of_int n = (if n < 0 then CHR ''-'' # digitsOf (nat (- n)) else digitsOf (nat n))"

text \<open>
  White space that \<open>parseInt\<close> skips. Strings are lists of 8-bit characters here, so only
  the white space characters below U+0100 appear.
\<close>

definition isWhiteSpace :: "char \<Rightarrow> bool" where
  "isWhiteSpace c = ((of_char c :: nat) \<in> {9, 10, 11, 12, 13, 32, 160})"

definition isDigit :: "char \<Rightarrow> bool" where
  "isDigit c = (48 \<le> (of_char c :: nat) \<and> (of_char c :: nat) \<le> 57)"

definition digitsValue :: "string \<Rightarrow> nat" where
  "digitsValue ds = foldl (\<lambda>a c. 10 * a + ((of_char c :: nat) - 48)) 0 ds"

text \<open>
  \<open>parseInt(s, 10)\<close>: leading white space is skipped, one sign is read, then the longest
  prefix of decimal digits; with no digit the result is \<open>NaN\<close> (\<open>None\<close>).
\<close>

definition parseInt :: "string \<Rightarrow> int option" where
  "parseInt s =
     (let t = dropWhile isWhiteSpace s;
          neg = (t \<noteq> [] \<and> hd t = CHR ''-'');
          u = (if t \<noteq> [] \<and> (hd t = CHR ''-'' \<or> hd t = CHR ''+'') then tl t else t);
          ds = takeWhile isDigit u
      in if ds = [] then None
         else Some (if neg then - int (digitsValue ds) else int (digitsValue ds)))"

section \<open>Connection configuration\<close>

text \<open>\<open>process.env\<close>: a variable is unset (\<open>None\<close>) or holds a string.\<close>

type_synonym environment = "string \<Rightarrow> string option"

text \<open>
  The fields that \<open>getImapConfig\<close> and \<open>getSmtpConfig\<close> both fill in. \<open>auth\<close> is the
  pair \<open>{user, pass}\<close> when present; \<open>rejectUnauthorized\<close> is the field of the nested
  \<open>tls\<close> object.
\<close>

record ConnectionOptions =
  host :: string
  port :: "int option"
  secure :: bool
  rejectUnauthorized :: bool
  auth :: "(string \<times> string) option"

record ImapFlowOptions = ConnectionOptions +
  logger :: bool

record SMTPTransportOptions = ConnectionOptions +
  requireTLS :: bool

text \<open>
  \<open>getImapConfig\<close> (imap.ts). The security mode is the raw value of \<open>IMAP_SECURITY\<close>
  (the source only casts it), \<open>ssl\<close> when unset.
\<close>

definition getImapConfig :: "environment \<Rightarrow> error + ImapFlowOptions" where
  "getImapConfig env =
     (case env ''IMAP_HOST'' of
        None \<Rightarrow> Inl (Error ''IMAP_HOST is required'')
      | Some hostname \<Rightarrow>
          if hostname = [] then Inl (Error ''IMAP_HOST is required'')
          else
            let security = nullish (env ''IMAP_SECURITY'') ''ssl'';
                defaultPort = (if security = ''ssl'' then 993 else 143);
                port = parseInt (nullish (env ''IMAP_PORT'') (String_of_int defaultPort));
                sslVerify = (env ''SSL_VERIFY'' \<noteq> Some ''false'');
                username =
                  nullish (nullish_opt (env ''EMAIL_USERNAME'') (env ''EMAIL_ADDRESS'')) [];
                password = nullish (env ''EMAIL_PASSWORD'') [];
                config = \<lparr> host = hostname, port = port,
                           secure = (security = ''ssl''), rejectUnauthorized = sslVerify,
                           auth = None, logger = False \<rparr>;
                config = (if security = ''starttls'' then config \<lparr> secure := False \<rparr>
                          else config);
                config = (if password \<noteq> [] \<or> security \<noteq> ''none''
                          then config \<lparr> auth := Some (username, password) \<rparr> else config)
            in Inr config)"

text \<open>\<open>getSmtpConfig\<close> (smtp.ts).\<close>

definition getSmtpConfig :: "environment \<Rightarrow> error + SMTPTransportOptions" where
  "getSmtpConfig env =
     (case env ''SMTP_HOST'' of
        None \<Rightarrow> Inl (Error ''SMTP_HOST is required'')
      | Some hostname \<Rightarrow>
          if hostname = [] then Inl (Error ''SMTP_HOST is required'')
          else
            let security = nullish (env ''SMTP_SECURITY'') ''ssl'';
                defaultPort = (if security = ''ssl'' then 465
                               else if security = ''starttls'' then 587 else 25);
                port = parseInt (nullish (env ''SMTP_PORT'') (String_of_int defaultPort));
                sslVerify = (env ''SSL_VERIFY'' \<noteq> Some ''false'');
                username =
                  nullish (nullish_opt (env ''EMAIL_USERNAME'') (env ''EMAIL_ADDRESS'')) [];
                password = nullish (env ''EMAIL_PASSWORD'') [];
                config = \<lparr> host = hostname, port = port,
                           secure = (security = ''ssl''), rejectUnauthorized = sslVerify,
                           auth = None, requireTLS = (security = ''starttls'') \<rparr>;
                config = (if password \<noteq> [] \<or> security \<noteq> ''none''
                          then config \<lparr> auth := Some (username, password) \<rparr> else config)
            in Inr config)"

section \<open>Result formatting\<close>

record MessageAddressObject =
  addr_name :: "string option"
  addr_address :: "string option"

text \<open>A value inside a template literal: \<open>undefined\<close> prints as the word.\<close>

fun template :: "string option \<Rightarrow> string" where
  "template None = ''undefined''"
| "template (Some s) = s"

fun formatAddress :: "MessageAddressObject option \<Rightarrow> string option" where
  "formatAddress None = None"
| "formatAddress (Some addr) =
     (if truthy (addr_name addr)
      then Some (template (addr_name addr) @ '' <'' @ template (addr_address addr) @ ''>'')
      else addr_address addr)"

text \<open>\<open>filter(Boolean)\<close> drops \<open>undefined\<close> and the empty string.\<close>

definition formatAddresses :: "MessageAddressObject list option \<Rightarrow> string list option" where
  "formatAddresses addrs =
     (case addrs of
        None \<Rightarrow> None
      | Some as \<Rightarrow>
          if length as = 0 then None
          else Some (map template (filter truthy (map (\<lambda>a. formatAddress (Some a)) as))))"

text \<open>
  The \<open>date\<close> of an envelope is a JavaScript \<open>Date\<close>. A \<open>Date\<close> with a valid time value
  is represented by the string that its \<open>toISOString()\<close> returns (the ISO-8601 rendering;
  the calendar arithmetic of the built-in is not modelled). On a \<open>Date\<close> with an invalid
  time value \<open>toISOString()\<close> throws a \<open>RangeError\<close>.
\<close>

datatype Date = Date string | InvalidDate

fun toISOString :: "Date \<Rightarrow> error + string" where
  "toISOString (Date rendering) = Inr rendering"
| "toISOString InvalidDate = Inl (RangeError ''Invalid time value'')"

record MessageEnvelopeObject =
  env_date :: "Date option"
  env_from :: "MessageAddressObject list option"
  env_to :: "MessageAddressObject list option"
  env_cc :: "MessageAddressObject list option"
  env_subject :: "string option"

text \<open>
  The expression \<open>envelope?.date?.toISOString?.() ?? String(envelope?.date)\<close> that
  \<open>messageToSummary\<close> and \<open>fetchEmail\<close> share. The left side is \<open>undefined\<close> exactly when
  the envelope or its date is; then the right side is \<open>String(undefined)\<close>.
\<close>

definition dateString :: "MessageEnvelopeObject option \<Rightarrow> error + string" where
  "dateString envelope =
     (case Option.bind envelope env_date of
        None \<Rightarrow> Inr (template None)
      | Some d \<Rightarrow> toISOString d)"

section \<open>MIME body structure\<close>

text \<open>
  \<open>MessageStructureObject\<close>: every field but the content type is optional, the parameter
  objects are maps from parameter name to value, and \<open>childNodes\<close> is present on
  multipart nodes only.
\<close>

datatype MessageStructureObject = Node
  (node_type: string)
  (node_part: "string option")
  (node_size: "int option")
  (node_disposition: "string option")
  (node_dispositionParameters: "(string \<rightharpoonup> string) option")
  (node_parameters: "(string \<rightharpoonup> string) option")
  (node_childNodes: "MessageStructureObject list option")

text \<open>\<open>params?.[key]\<close>\<close>

fun param :: "(string \<rightharpoonup> string) option \<Rightarrow> string \<Rightarrow> string option" where
  "param None key = None"
| "param (Some m) key = m key"

record AttachmentInfo =
  att_filename :: "string option"
  att_size :: "int option"
  att_contentType :: string

text \<open>\<open>node.dispositionParameters?.["filename"] ?? node.parameters?.["name"]\<close>\<close>

definition nodeFilename :: "MessageStructureObject \<Rightarrow> string option" where
  "nodeFilename node =
     nullish_opt (param (node_dispositionParameters node) ''filename'')
                 (param (node_parameters node) ''name'')"

text \<open>
  \<open>collectAttachments\<close>: the inner \<open>walk\<close> pushes onto the array \<open>attachments\<close> of the
  enclosing call, which is passed along here; the \<open>for\<close> loop over the children is
  \<open>collect_children\<close>.
\<close>

fun collect_walk :: "MessageStructureObject \<Rightarrow> AttachmentInfo list \<Rightarrow> AttachmentInfo list"
  and collect_children :: "MessageStructureObject list \<Rightarrow> AttachmentInfo list \<Rightarrow> AttachmentInfo list"
where
  "collect_walk (Node ty pt sz disp dps ps cns) attachments =
     (let node = Node ty pt sz disp dps ps cns;
          attachments =
            (if disp = Some ''attachment'' \<or> disp = Some ''inline''
             then (if disp = Some ''attachment'' \<or> truthy (nodeFilename node)
                   then attachments @ [\<lparr> att_filename = nodeFilename node, att_size = sz,
                                           att_contentType = ty \<rparr>]
                   else attachments)
             else attachments)
      in case cns of
           None \<Rightarrow> attachments
         | Some cs \<Rightarrow> collect_children cs attachments)"
| "collect_children [] attachments = attachments"
| "collect_children (child # cs) attachments =
     collect_children cs (collect_walk child attachments)"

definition collectAttachments :: "MessageStructureObject option \<Rightarrow> AttachmentInfo list" where
  "collectAttachments structure =
     (case structure of None \<Rightarrow> [] | Some s \<Rightarrow> collect_walk s [])"

text \<open>
  \<open>findPart\<close>: the inner \<open>walk\<close>, and its \<open>for\<close> loop with the early return as
  \<open>find_children\<close>.
\<close>

fun find_walk :: "string \<Rightarrow> MessageStructureObject \<Rightarrow> string option"
  and find_children :: "string \<Rightarrow> MessageStructureObject list \<Rightarrow> string option"
where
  "find_walk type (Node ty pt sz disp dps ps cns) =
     (if ty = type \<and> truthy pt then pt
      else case cns of
             None \<Rightarrow> None
           | Some cs \<Rightarrow> find_children type cs)"
| "find_children type [] = None"
| "find_children type (child # cs) =
     (let found = find_walk type child
      in if truthy found then found else find_children type cs)"

definition findPart :: "MessageStructureObject option \<Rightarrow> string \<Rightarrow> string option" where
  "findPart structure type =
     (case structure of None \<Rightarrow> None | Some s \<Rightarrow> find_walk type s)"

text \<open>
  Document order: a node, then its children from first to last, each with its own
  subtree (depth-first, pre-order).
\<close>

fun preorder :: "MessageStructureObject \<Rightarrow> MessageStructureObject list" where
  "preorder (Node ty pt sz disp dps ps cns) =
     Node ty pt sz disp dps ps cns #
       (case cns of None \<Rightarrow> [] | Some cs \<Rightarrow> concat (map preorder cs))"

section \<open>The mailbox session\<close>

subsection \<open>What the protocol engine delivers\<close>

record ListResponse =
  lr_name :: string
  lr_path :: string
  lr_delimiter :: string
  lr_flags :: "string list"
  lr_specialUse :: "string option"

record MailboxObject =
  mb_exists :: int

record FetchMessageObject =
  msg_uid :: int
  msg_envelope :: "MessageEnvelopeObject option"
  msg_flags :: "string list option"
  msg_bodyStructure :: "MessageStructureObject option"

record SearchObject =
  so_from :: "string option"
  so_to :: "string option"
  so_subject :: "string option"
  so_since :: "string option"
  so_before :: "string option"
  so_body :: "string option"
  so_seen :: "bool option"

record CopyResponseObject =
  uidMap :: "(int \<rightharpoonup> int) option"

text \<open>
  The range argument of a fetch: the string \<open>`${start}:${end}`\<close> of sequence numbers is
  \<open>SeqRange start end\<close>, and the comma-joined UIDs passed with \<open>{uid: true}\<close> are
  \<open>UidSet uids\<close>.
\<close>

datatype fetch_range = SeqRange int int | UidSet "int list"

text \<open>One call on the client, with the arguments that vary.\<close>

datatype call =
    Connect
  | ListCall
  | MailboxOpen string bool
  | FetchAll fetch_range
  | FetchOne int
  | Download int "string option"
  | Search SearchObject
  | MessageMove int string
  | MessageDelete int
  | Logout

text \<open>
  An \<open>ImapFlow\<close> client as the code sees it: for each method, what the awaited call
  gives, a value or a rejection. \<open>mailboxOpen\<close> takes the path and the \<open>readOnly\<close>
  option; \<open>fetchOne\<close> gives \<open>None\<close> for \<open>false\<close> (no such message); \<open>download\<close>
  takes the UID and the part (\<open>None\<close> for the whole message) and gives the chunks read
  from the content stream; \<open>search\<close> gives \<open>None\<close> for a falsy result;
  \<open>messageMove\<close> gives \<open>None\<close> for \<open>false\<close>.
\<close>

record ImapFlow =
  c_connect :: "error + unit"
  c_list :: "error + ListResponse list"
  c_mailboxOpen :: "string \<Rightarrow> bool \<Rightarrow> error + MailboxObject"
  c_fetchAll :: "fetch_range \<Rightarrow> error + FetchMessageObject list"
  c_fetchOne :: "int \<Rightarrow> error + FetchMessageObject option"
  c_download :: "int \<Rightarrow> string option \<Rightarrow> error + string list"
  c_search :: "SearchObject \<Rightarrow> error + int list option"
  c_messageMove :: "int \<Rightarrow> string \<Rightarrow> error + CopyResponseObject option"
  c_messageDelete :: "int \<Rightarrow> error + bool"
  c_logout :: "error + unit"

text \<open>
  \<open>createClient\<close>: \<open>new ImapFlow(getImapConfig())\<close>. The configuration can throw; the
  client built from it is the given one.
\<close>

definition createClient :: "environment \<Rightarrow> ImapFlow \<Rightarrow> error + ImapFlow" where
  "createClient env client =
     (case getImapConfig env of Inl e \<Rightarrow> Inl e | Inr config \<Rightarrow> Inr client)"

subsection \<open>Sequencing of awaited calls\<close>

text \<open>
  An operation runs from the calls made so far to its outcome (the value returned or the
  exception thrown) and the calls made, in order.
\<close>

type_synonym 'a session = "call list \<Rightarrow> (error + 'a) \<times> call list"

definition await :: "call \<Rightarrow> error + 'a \<Rightarrow> 'a session" where
  "await c r calls = (r, calls @ [c])"

definition return :: "'a \<Rightarrow> 'a session" where
  "return x calls = (Inr x, calls)"

definition throw :: "error \<Rightarrow> 'a session" where
  "throw e calls = (Inl e, calls)"

definition and_then :: "'a session \<Rightarrow> ('a \<Rightarrow> 'b session) \<Rightarrow> 'b session" where
  "and_then m f calls =
     (case m calls of
        (Inl e, calls') \<Rightarrow> (Inl e, calls')
      | (Inr x, calls') \<Rightarrow> f x calls')"

text \<open>A computation without calls that may throw.\<close>

definition lift :: "error + 'a \<Rightarrow> 'a session" where
  "lift r calls = (r, calls)"

text \<open>
  \<open>try { body } finally { await client.logout().catch(() => {}); }\<close>: after the body,
  whether it returned or threw, \<open>logout\<close> is called; its rejection is caught and
  dropped, and the outcome of the body is the outcome of the statement.
\<close>

definition try_finally_logout :: "ImapFlow \<Rightarrow> 'a session \<Rightarrow> 'a session" where
  "try_finally_logout client body calls =
     (case body calls of
        (outcome, calls') \<Rightarrow>
          (case c_logout client of
             Inl e \<Rightarrow> (outcome, calls' @ [Logout])
           | Inr u \<Rightarrow> (outcome, calls' @ [Logout])))"

text \<open>An exported operation: the client is created before the \<open>try\<close>.\<close>

definition operation ::
  "environment \<Rightarrow> ImapFlow \<Rightarrow> (ImapFlow \<Rightarrow> 'a session) \<Rightarrow> (error + 'a) \<times> call list" where
  "operation env c body =
     (case createClient env c of
        Inl e \<Rightarrow> (Inl e, [])
      | Inr client \<Rightarrow> try_finally_logout client (body client) [])"

subsection \<open>listMailboxes\<close>

record MailboxInfo =
  mi_name :: string
  mi_path :: string
  mi_delimiter :: string
  mi_flags :: "string list"
  mi_specialUse :: "string option"

definition listMailboxes_body :: "ImapFlow \<Rightarrow> MailboxInfo list session" where
  "listMailboxes_body client =
     and_then (await Connect (c_connect client)) (\<lambda>u.
     and_then (await ListCall (c_list client)) (\<lambda>list.
     return (map (\<lambda>m. \<lparr> mi_name = lr_name m, mi_path = lr_path m,
                          mi_delimiter = lr_delimiter m, mi_flags = lr_flags m,
                          mi_specialUse = lr_specialUse m \<rparr>) list)))"

definition listMailboxes :: "environment \<Rightarrow> ImapFlow \<Rightarrow> (error + MailboxInfo list) \<times> call list" where
  "listMailboxes env c = operation env c listMailboxes_body"

subsection \<open>listEmails\<close>

record EmailSummary =
  es_uid :: int
  es_date :: "string option"
  es_from :: "string list option"
  es_to :: "string list option"
  es_subject :: "string option"
  es_flags :: "string list"

definition messageToSummary :: "FetchMessageObject \<Rightarrow> error + EmailSummary" where
  "messageToSummary msg =
     (case dateString (msg_envelope msg) of
        Inl e \<Rightarrow> Inl e
      | Inr date \<Rightarrow>
          Inr \<lparr> es_uid = msg_uid msg,
                es_date = Some date,
                es_from = formatAddresses (Option.bind (msg_envelope msg) env_from),
                es_to = formatAddresses (Option.bind (msg_envelope msg) env_to),
                es_subject = Option.bind (msg_envelope msg) env_subject,
                es_flags = (case msg_flags msg of Some fs \<Rightarrow> fs | None \<Rightarrow> []) \<rparr>)"

text \<open>\<open>xs.map(f)\<close> for an \<open>f\<close> that can throw: the first exception ends the map.\<close>

fun map_throwing :: "('a \<Rightarrow> error + 'b) \<Rightarrow> 'a list \<Rightarrow> error + 'b list" where
  "map_throwing f [] = Inr []"
| "map_throwing f (x # xs) =
     (case f x of
        Inl e \<Rightarrow> Inl e
      | Inr y \<Rightarrow> (case map_throwing f xs of Inl e \<Rightarrow> Inl e | Inr ys \<Rightarrow> Inr (y # ys)))"

text \<open>
  \<open>messages.sort((a, b) => b.uid - a.uid)\<close>: the sort of the language is stable, so the
  result is the stable sort by descending UID.
\<close>

definition sortByUidDesc :: "FetchMessageObject list \<Rightarrow> FetchMessageObject list" where
  "sortByUidDesc messages = sort_key (\<lambda>m. - msg_uid m) messages"

record ListEmailsResult =
  ler_total :: int
  ler_page :: int
  ler_pageSize :: int
  ler_emails :: "EmailSummary list"

definition listEmails_body :: "string \<Rightarrow> int \<Rightarrow> int \<Rightarrow> ImapFlow \<Rightarrow> ListEmailsResult session" where
  "listEmails_body mailbox page pageSize client =
     and_then (await Connect (c_connect client)) (\<lambda>u.
     and_then (await (MailboxOpen mailbox True) (c_mailboxOpen client mailbox True)) (\<lambda>mb.
       let total = mb_exists mb in
       if total = 0
       then return \<lparr> ler_total = total, ler_page = page, ler_pageSize = pageSize,
                      ler_emails = [] \<rparr>
       else
         let endSeq = total - (page - 1) * pageSize;
             startSeq = max 1 (endSeq - pageSize + 1)
         in if endSeq < 1
            then return \<lparr> ler_total = total, ler_page = page, ler_pageSize = pageSize,
                           ler_emails = [] \<rparr>
            else
              and_then (await (FetchAll (SeqRange startSeq endSeq))
                              (c_fetchAll client (SeqRange startSeq endSeq))) (\<lambda>messages.
              and_then (lift (map_throwing messageToSummary (sortByUidDesc messages))) (\<lambda>emails.
              return \<lparr> ler_total = total, ler_page = page, ler_pageSize = pageSize,
                        ler_emails = emails \<rparr>))))"

definition listEmails ::
  "environment \<Rightarrow> ImapFlow \<Rightarrow> string \<Rightarrow> int \<Rightarrow> int \<Rightarrow> (error + ListEmailsResult) \<times> call list" where
  "listEmails env c mailbox page pageSize =
     operation env c (listEmails_body mailbox page pageSize)"

subsection \<open>fetchEmail\<close>

record FetchEmailResult =
  fe_uid :: int
  fe_date :: "string option"
  fe_from :: "string list option"
  fe_to :: "string list option"
  fe_cc :: "string list option"
  fe_subject :: "string option"
  fe_flags :: "string list"
  fe_textBody :: "string option"
  fe_htmlBody :: "string option"
  fe_attachments :: "AttachmentInfo list"

text \<open>
  The block that the three downloads of \<open>fetchEmail\<close> repeat: download the part, read
  every chunk of the stream, concatenate, decode. A string is its bytes here, so the
  decoding does not show.
\<close>

definition downloadString :: "ImapFlow \<Rightarrow> int \<Rightarrow> string option \<Rightarrow> string session" where
  "downloadString client uid part =
     and_then (await (Download uid part) (c_download client uid part)) (\<lambda>chunks.
     return (concat chunks))"

definition fetchEmail_body :: "string \<Rightarrow> int \<Rightarrow> ImapFlow \<Rightarrow> FetchEmailResult session" where
  "fetchEmail_body mailbox uid client =
     and_then (await Connect (c_connect client)) (\<lambda>u.
     and_then (await (MailboxOpen mailbox True) (c_mailboxOpen client mailbox True)) (\<lambda>mb.
     and_then (await (FetchOne uid) (c_fetchOne client uid)) (\<lambda>fetched.
       case fetched of
         None \<Rightarrow> throw (Error (''Message with UID '' @ String_of_int uid @ '' not found''))
       | Some msg \<Rightarrow>
           let envelope = msg_envelope msg;
               attachments = collectAttachments (msg_bodyStructure msg);
               textPart = findPart (msg_bodyStructure msg) ''text/plain'';
               htmlPart = findPart (msg_bodyStructure msg) ''text/html''
           in
           and_then (if truthy textPart
                     then and_then (downloadString client uid textPart) (\<lambda>s. return (Some s))
                     else return None) (\<lambda>textBody.
           and_then (if truthy htmlPart
                     then and_then (downloadString client uid htmlPart) (\<lambda>s. return (Some s))
                     else return None) (\<lambda>htmlBody.
           and_then (if \<not> truthy textPart \<and> \<not> truthy htmlPart
                        \<and> Option.bind (msg_bodyStructure msg) node_childNodes = None
                     then and_then (downloadString client uid None) (\<lambda>fullSource.
                            if map_option node_type (msg_bodyStructure msg) = Some ''text/html''
                            then return (textBody, Some fullSource)
                            else return (Some fullSource, htmlBody))
                     else return (textBody, htmlBody)) (\<lambda>(textBody, htmlBody).
           and_then (lift (dateString envelope)) (\<lambda>date.
           return \<lparr> fe_uid = msg_uid msg,
                     fe_date = Some date,
                     fe_from = formatAddresses (Option.bind envelope env_from),
                     fe_to = formatAddresses (Option.bind envelope env_to),
                     fe_cc = formatAddresses (Option.bind envelope env_cc),
                     fe_subject = Option.bind envelope env_subject,
                     fe_flags = (case msg_flags msg of Some fs \<Rightarrow> fs | None \<Rightarrow> []),
                     fe_textBody = textBody,
                     fe_htmlBody = htmlBody,
                     fe_attachments = attachments \<rparr>)))))))"

definition fetchEmail ::
  "environment \<Rightarrow> ImapFlow \<Rightarrow> string \<Rightarrow> int \<Rightarrow> (error + FetchEmailResult) \<times> call list" where
  "fetchEmail env c mailbox uid = operation env c (fetchEmail_body mailbox uid)"

subsection \<open>searchEmails\<close>

record SearchCriteria =
  sc_from :: "string option"
  sc_to :: "string option"
  sc_subject :: "string option"
  sc_since :: "string option"
  sc_before :: "string option"
  sc_body :: "string option"
  sc_seen :: "bool option"

text \<open>A field of the query is set when the field of the criteria is truthy.\<close>

definition whenTruthy :: "string option \<Rightarrow> string option" where
  "whenTruthy v = (if truthy v then v else None)"

definition buildQuery :: "SearchCriteria \<Rightarrow> SearchObject" where
  "buildQuery criteria =
     \<lparr> so_from = whenTruthy (sc_from criteria),
       so_to = whenTruthy (sc_to criteria),
       so_subject = whenTruthy (sc_subject criteria),
       so_since = whenTruthy (sc_since criteria),
       so_before = whenTruthy (sc_before criteria),
       so_body = whenTruthy (sc_body criteria),
       so_seen = sc_seen criteria \<rparr>"

text \<open>
  \<open>xs.slice(start)\<close>: a negative \<open>start\<close> counts from the end, and the index is clamped
  to the array.
\<close>

definition slice :: "'a list \<Rightarrow> int \<Rightarrow> 'a list" where
  "slice xs start =
     (let len = int (length xs);
          k = (if start < 0 then max (len + start) 0 else min start len)
      in drop (nat k) xs)"

definition searchEmails_body ::
  "string \<Rightarrow> SearchCriteria \<Rightarrow> int \<Rightarrow> ImapFlow \<Rightarrow> EmailSummary list session" where
  "searchEmails_body mailbox criteria limit client =
     and_then (await Connect (c_connect client)) (\<lambda>u.
     and_then (await (MailboxOpen mailbox True) (c_mailboxOpen client mailbox True)) (\<lambda>mb.
       let query = buildQuery criteria in
       and_then (await (Search query) (c_search client query)) (\<lambda>found.
         case found of
           None \<Rightarrow> return []
         | Some uids \<Rightarrow>
             if length uids = 0 then return []
             else
               let selectedUids = slice uids (- limit) in
               and_then (await (FetchAll (UidSet selectedUids))
                               (c_fetchAll client (UidSet selectedUids))) (\<lambda>messages.
               lift (map_throwing messageToSummary (sortByUidDesc messages))))))"

definition searchEmails ::
  "environment \<Rightarrow> ImapFlow \<Rightarrow> string \<Rightarrow> SearchCriteria \<Rightarrow> int
     \<Rightarrow> (error + EmailSummary list) \<times> call list" where
  "searchEmails env c mailbox criteria limit =
     operation env c (searchEmails_body mailbox criteria limit)"

subsection \<open>moveEmail and deleteEmail\<close>

record MoveEmailResult =
  mr_uid :: int
  mr_from :: string
  mr_to :: string
  mr_newUid :: "int option"

definition moveEmail_body :: "string \<Rightarrow> int \<Rightarrow> string \<Rightarrow> ImapFlow \<Rightarrow> MoveEmailResult session" where
  "moveEmail_body mailbox uid destination client =
     and_then (await Connect (c_connect client)) (\<lambda>u.
     and_then (await (MailboxOpen mailbox False) (c_mailboxOpen client mailbox False)) (\<lambda>mb.
     and_then (await (MessageMove uid destination) (c_messageMove client uid destination)) (\<lambda>moved.
       case moved of
         None \<Rightarrow> throw (Error (''Failed to move message UID '' @ String_of_int uid
                                  @ '' to '' @ destination))
       | Some result \<Rightarrow>
           let newUid = (case uidMap result of None \<Rightarrow> None | Some m \<Rightarrow> m uid)
           in return \<lparr> mr_uid = uid, mr_from = mailbox, mr_to = destination,
                         mr_newUid = newUid \<rparr>)))"

definition moveEmail ::
  "environment \<Rightarrow> ImapFlow \<Rightarrow> string \<Rightarrow> int \<Rightarrow> string \<Rightarrow> (error + MoveEmailResult) \<times> call list" where
  "moveEmail env c mailbox uid destination =
     operation env c (moveEmail_body mailbox uid destination)"

record DeleteEmailResult =
  dr_uid :: int
  dr_mailbox :: string
  dr_deleted :: bool

definition deleteEmail_body :: "string \<Rightarrow> int \<Rightarrow> ImapFlow \<Rightarrow> DeleteEmailResult session" where
  "deleteEmail_body mailbox uid client =
     and_then (await Connect (c_connect client)) (\<lambda>u.
     and_then (await (MailboxOpen mailbox False) (c_mailboxOpen client mailbox False)) (\<lambda>mb.
     and_then (await (MessageDelete uid) (c_messageDelete client uid)) (\<lambda>result.
     return \<lparr> dr_uid = uid, dr_mailbox = mailbox, dr_deleted = result \<rparr>)))"

definition deleteEmail ::
  "environment \<Rightarrow> ImapFlow \<Rightarrow> string \<Rightarrow> int \<Rightarrow> (error + DeleteEmailResult) \<times> call list" where
  "deleteEmail env c mailbox uid = operation env c (deleteEmail_body mailbox uid)"

section \<open>Startup validation\<close>

text \<open>
  The checks at the top of index.ts, which run before any operation is served: the
  result is the message logged before \<open>process.exit(1)\<close>, or \<open>None\<close> when the server
  goes on to start.
\<close>

definition startupCheck :: "environment \<Rightarrow> string option" where
  "startupCheck env =
     (let imapSecurity = nullish (env ''IMAP_SECURITY'') ''ssl'';
          smtpSecurity = nullish (env ''SMTP_SECURITY'') ''ssl''
      in if \<not> truthy (env ''EMAIL_ADDRESS'') then Some ''EMAIL_ADDRESS is required''
         else if \<not> truthy (env ''IMAP_HOST'') then Some ''IMAP_HOST is required''
         else if \<not> truthy (env ''SMTP_HOST'') then Some ''SMTP_HOST is required''
         else if \<not> truthy (env ''EMAIL_PASSWORD'') \<and> imapSecurity \<noteq> ''none''
           then Some (''EMAIL_PASSWORD is required when IMAP_SECURITY is not ''
                      @ [CHR 0x27] @ ''none'' @ [CHR 0x27])
         else if \<not> truthy (env ''EMAIL_PASSWORD'') \<and> smtpSecurity \<noteq> ''none''
           then Some (''EMAIL_PASSWORD is required when SMTP_SECURITY is not ''
                      @ [CHR 0x27] @ ''none'' @ [CHR 0x27])
         else None)"

section \<open>Notions used to state the properties\<close>

text \<open>The entry that \<open>collectAttachments\<close> pushes for a node.\<close>

definition attachmentInfo :: "MessageStructureObject \<Rightarrow> AttachmentInfo" where
  "attachmentInfo node =
     \<lparr> att_filename = nodeFilename node, att_size = node_size node,
       att_contentType = node_type node \<rparr>"

text \<open>
  The nodes that \<open>collectAttachments\<close> emits: disposition \<open>attachment\<close>, or disposition
  \<open>inline\<close> with a non-empty filename, where the filename is the \<open>filename\<close> disposition
  parameter whenever that parameter is present, and the \<open>name\<close> content-type parameter
  only when it is not.
\<close>

definition qualifies :: "MessageStructureObject \<Rightarrow> bool" where
  "qualifies node =
     (node_disposition node = Some ''attachment''
      \<or> (node_disposition node = Some ''inline''
          \<and> (case param (node_dispositionParameters node) ''filename'' of
                Some f \<Rightarrow> f \<noteq> []
              | None \<Rightarrow> truthy (param (node_parameters node) ''name''))))"

text \<open>
  The qualification rule in the words of the specification: disposition \<open>attachment\<close>,
  or disposition \<open>inline\<close> and a filename carried by the disposition parameters or by
  the content-type \<open>name\<close> parameter.
\<close>

definition spec_qualifies :: "MessageStructureObject \<Rightarrow> bool" where
  "spec_qualifies node =
     (node_disposition node = Some ''attachment''
      \<or> (node_disposition node = Some ''inline''
          \<and> (truthy (param (node_dispositionParameters node) ''filename'')
              \<or> truthy (param (node_parameters node) ''name''))))"

text \<open>A node of the wanted content type that carries a part identifier.\<close>

definition matches :: "string \<Rightarrow> MessageStructureObject \<Rightarrow> bool" where
  "matches type node = (node_type node = type \<and> truthy (node_part node))"

section \<open>Concrete inputs\<close>

definition hosts_only :: environment where
  "hosts_only = [''IMAP_HOST'' \<mapsto> ''imap.example.org'', ''SMTP_HOST'' \<mapsto> ''smtp.example.org'']"

definition with_starttls :: environment where
  "with_starttls = hosts_only(''IMAP_SECURITY'' \<mapsto> ''starttls'', ''SMTP_SECURITY'' \<mapsto> ''starttls'')"

definition with_none :: environment where
  "with_none = hosts_only(''IMAP_SECURITY'' \<mapsto> ''none'', ''SMTP_SECURITY'' \<mapsto> ''none'')"

definition with_ports :: environment where
  "with_ports = hosts_only(''IMAP_PORT'' \<mapsto> ''1993'', ''SMTP_PORT'' \<mapsto> ''2525'')"

text \<open>A message with a UID and nothing else, and its summary.\<close>

definition bare_message :: "int \<Rightarrow> FetchMessageObject" where
  "bare_message u =
     \<lparr> msg_uid = u, msg_envelope = None, msg_flags = None, msg_bodyStructure = None \<rparr>"

definition bare_summary :: "int \<Rightarrow> EmailSummary" where
  "bare_summary u =
     \<lparr> es_uid = u, es_date = Some ''undefined'', es_from = None, es_to = None,
       es_subject = None, es_flags = [] \<rparr>"

text \<open>A single-part HTML message: the root has no part identifier and no children.\<close>

definition html_message :: FetchMessageObject where
  "html_message =
     \<lparr> msg_uid = 42,
       msg_envelope = Some \<lparr> env_date = Some (Date ''2024-05-06T07:08:09.000Z''),
                             env_from = Some [\<lparr> addr_name = Some ''Jane'',
                                                addr_address = Some ''jane@x.com'' \<rparr>],
                             env_to = None, env_cc = None, env_subject = Some ''Hello'' \<rparr>,
       msg_flags = Some [''Seen''],
       msg_bodyStructure = Some (Node ''text/html'' None (Some 12) None None None None) \<rparr>"

text \<open>
  A client on which every call succeeds: a mailbox of 95 messages, a sequence fetch
  that delivers UIDs 7, 9, 8 in this order, a UID fetch that delivers the messages
  asked for, a search with the 120 matches 1 to 120.
\<close>

definition example_client :: ImapFlow where
  "example_client =
     \<lparr> c_connect = Inr (),
       c_list = Inr [],
       c_mailboxOpen = (\<lambda>path readOnly. Inr \<lparr> mb_exists = 95 \<rparr>),
       c_fetchAll = (\<lambda>range. case range of
                        SeqRange s e \<Rightarrow> Inr [bare_message 7, bare_message 9, bare_message 8]
                      | UidSet uids \<Rightarrow> Inr (map bare_message uids)),
       c_fetchOne = (\<lambda>uid. Inr (Some html_message)),
       c_download = (\<lambda>uid part. Inr [''<p>Hello'', ''</p>'']),
       c_search = (\<lambda>query. Inr (Some [1..120])),
       c_messageMove = (\<lambda>uid destination. Inr None),
       c_messageDelete = (\<lambda>uid. Inr True),
       c_logout = Inr () \<rparr>"

text \<open>Search criteria with no field set.\<close>

definition no_criteria :: SearchCriteria where
  "no_criteria =
     \<lparr> sc_from = None, sc_to = None, sc_subject = None, sc_since = None,
       sc_before = None, sc_body = None, sc_seen = None \<rparr>"

text \<open>The tree \<open>multipart/alternative\<close> with a plain-text and an HTML child.\<close>

definition alternative :: MessageStructureObject where
  "alternative =
     Node ''multipart/alternative'' None None None None None
       (Some [Node ''text/plain'' (Some ''1'') None None None None None,
              Node ''text/html'' (Some ''2'') None None None None None])"

text \<open>
  An inline image whose disposition has an empty \<open>filename\<close> parameter and whose
  content type has the \<open>name\<close> parameter \<open>logo.png\<close>.
\<close>

definition shadowed_name :: MessageStructureObject where
  "shadowed_name =
     Node ''image/png'' (Some ''2'') (Some 512) (Some ''inline'')
       (Some [''filename'' \<mapsto> '''']) (Some [''name'' \<mapsto> ''logo.png'']) None"

section \<open>Auxiliary facts\<close>

subsection \<open>Configuration\<close>

lemma parseInt_default_ports:
  "parseInt (String_of_int 993) = Some 993"
  "parseInt (String_of_int 143) = Some 143"
  "parseInt (String_of_int 465) = Some 465"
  "parseInt (String_of_int 587) = Some 587"
  "parseInt (String_of_int 25) = Some 25"
  by code_simp+

lemma getImapConfig_port:
  assumes "truthy (env ''IMAP_HOST'')"
  shows "\<exists>c. getImapConfig env = Inr c
           \<and> port c = parseInt (nullish (env ''IMAP_PORT'')
               (String_of_int (if nullish (env ''IMAP_SECURITY'') ''ssl'' = ''ssl'' then 993 else 143)))
           \<and> secure c = (nullish (env ''IMAP_SECURITY'') ''ssl'' = ''ssl'')"
  using assms by (cases "env ''IMAP_HOST''") (auto simp: getImapConfig_def Let_def)

lemma getSmtpConfig_port:
  assumes "truthy (env ''SMTP_HOST'')"
  shows "\<exists>c. getSmtpConfig env = Inr c
           \<and> port c = parseInt (nullish (env ''SMTP_PORT'')
               (String_of_int (if nullish (env ''SMTP_SECURITY'') ''ssl'' = ''ssl'' then 465
                               else if nullish (env ''SMTP_SECURITY'') ''ssl'' = ''starttls'' then 587
                               else 25)))
           \<and> secure c = (nullish (env ''SMTP_SECURITY'') ''ssl'' = ''ssl'')"
  using assms by (cases "env ''SMTP_HOST''") (auto simp: getSmtpConfig_def Let_def)

text \<open>A server that got past its startup checks has both hosts configured.\<close>

lemma startupCheck_hosts:
  "startupCheck env = None \<Longrightarrow> truthy (env ''IMAP_HOST'') \<and> truthy (env ''SMTP_HOST'')"
  by (auto simp: startupCheck_def Let_def split: if_splits)

subsection \<open>Sessions\<close>

lemma createClient_ok: "truthy (env ''IMAP_HOST'') \<Longrightarrow> createClient env c = Inr c"
  by (cases "env ''IMAP_HOST''") (simp_all add: createClient_def getImapConfig_def Let_def)

lemma operation_ok:
  "truthy (env ''IMAP_HOST'') \<Longrightarrow>
   operation env c body = (fst (body c []), snd (body c []) @ [Logout])"
  by (simp add: operation_def createClient_ok try_finally_logout_def split: prod.splits sum.splits)

lemma operation_result:
  "fst (operation env c body) = Inr r \<Longrightarrow>
   fst (body c []) = Inr r \<and> snd (operation env c body) = snd (body c []) @ [Logout]"
  by (auto simp: operation_def createClient_def try_finally_logout_def
      split: sum.splits prod.splits)

lemmas session_defs = and_then_def await_def return_def throw_def lift_def

lemma body_ignores_logout:
  "listMailboxes_body (c\<lparr>c_logout := l\<rparr>) = listMailboxes_body c"
  "listEmails_body mailbox page pageSize (c\<lparr>c_logout := l\<rparr>) = listEmails_body mailbox page pageSize c"
  "fetchEmail_body mailbox uid (c\<lparr>c_logout := l\<rparr>) = fetchEmail_body mailbox uid c"
  "searchEmails_body mailbox criteria limit (c\<lparr>c_logout := l\<rparr>) = searchEmails_body mailbox criteria limit c"
  "moveEmail_body mailbox uid destination (c\<lparr>c_logout := l\<rparr>) = moveEmail_body mailbox uid destination c"
  "deleteEmail_body mailbox uid (c\<lparr>c_logout := l\<rparr>) = deleteEmail_body mailbox uid c"
  by (simp_all add: listMailboxes_body_def listEmails_body_def fetchEmail_body_def
        searchEmails_body_def moveEmail_body_def deleteEmail_body_def downloadString_def Let_def
        cong: if_cong option.case_cong)

subsection \<open>Summaries and sorting\<close>

lemma messageToSummary_bare: "messageToSummary (bare_message u) = Inr (bare_summary u)"
  by (simp add: messageToSummary_def bare_message_def bare_summary_def dateString_def
        formatAddresses_def)

lemma map_throwing_bare:
  "map_throwing messageToSummary (map bare_message us) = Inr (map bare_summary us)"
  by (induction us) (simp_all add: messageToSummary_bare)

lemma map_throwing_uid:
  "map_throwing messageToSummary ms = Inr es \<Longrightarrow> map es_uid es = map msg_uid ms"
proof (induction ms arbitrary: es)
  case Nil
  then show ?case by simp
next
  case (Cons m ms)
  then show ?case
    by (auto simp: messageToSummary_def split: sum.splits)
qed

lemma map_throwing_date:
  "map_throwing messageToSummary ms = Inr es \<Longrightarrow> s \<in> set es \<Longrightarrow> es_date s \<noteq> None"
proof (induction ms arbitrary: es)
  case Nil
  then show ?case by simp
next
  case (Cons m ms)
  then show ?case
    by (auto simp: messageToSummary_def split: sum.splits)
qed

lemma messageToSummary_returns:
  "Option.bind (msg_envelope m) env_date \<noteq> Some InvalidDate \<Longrightarrow> \<exists>s. messageToSummary m = Inr s"
  by (cases "Option.bind (msg_envelope m) env_date";
      cases "the (Option.bind (msg_envelope m) env_date)")
     (auto simp: messageToSummary_def dateString_def)

lemma map_throwing_returns:
  "\<forall>m\<in>set ms. \<exists>s. f m = Inr s \<Longrightarrow> \<exists>es. map_throwing f ms = Inr es"
  by (induction ms) auto

lemma sortByUidDesc_sorted: "sorted_wrt (\<lambda>a b. b \<le> a) (map msg_uid (sortByUidDesc ms))"
proof -
  have "sorted (map (\<lambda>m. - msg_uid m) (sortByUidDesc ms))"
    by (simp add: sortByUidDesc_def)
  then show ?thesis
    by (simp add: sorted_wrt_map)
qed

lemma sortByUidDesc_mset: "mset (sortByUidDesc ms) = mset ms"
  by (simp add: sortByUidDesc_def)

lemma summaries_sorted:
  "map_throwing messageToSummary (sortByUidDesc ms) = Inr es \<Longrightarrow>
   sorted_wrt (\<lambda>a b. b \<le> a) (map es_uid es)"
  using map_throwing_uid [of "sortByUidDesc ms" es] sortByUidDesc_sorted [of ms] by simp

lemma summaries_mset:
  assumes "map_throwing messageToSummary (sortByUidDesc ms) = Inr es"
  shows "mset (map es_uid es) = mset (map msg_uid ms)"
proof -
  have "mset (map es_uid es) = mset (map msg_uid (sortByUidDesc ms))"
    using map_throwing_uid [OF assms] by simp
  also have "\<dots> = image_mset msg_uid (mset (sortByUidDesc ms))"
    by simp
  also have "\<dots> = mset (map msg_uid ms)"
    by (simp add: sortByUidDesc_mset)
  finally show ?thesis .
qed

lemma descending_unique:
  fixes xs ys :: "int list"
  assumes "sorted_wrt (\<lambda>a b. b \<le> a) xs" and "sorted ys" and "mset xs = mset ys"
  shows "xs = rev ys"
proof -
  have "sorted (rev xs)"
    using assms(1) by (simp add: sorted_wrt_rev)
  moreover have "mset (rev xs) = mset ys"
    using assms(3) by simp
  ultimately have "rev xs = ys"
    using assms(2) by (metis properties_for_sort)
  then show ?thesis by auto
qed

subsection \<open>The bodies of the operations, step by step\<close>

lemma listEmails_body_opened:
  assumes "c_connect c = Inr u" and "c_mailboxOpen c mailbox True = Inr mb"
  shows "listEmails_body mailbox page pageSize c [] =
     (if mb_exists mb = 0 \<or> mb_exists mb - (page - 1) * pageSize < 1
      then (Inr \<lparr> ler_total = mb_exists mb, ler_page = page, ler_pageSize = pageSize,
                   ler_emails = [] \<rparr>,
            [Connect, MailboxOpen mailbox True])
      else
        (case c_fetchAll c (SeqRange (max 1 (mb_exists mb - (page - 1) * pageSize - pageSize + 1))
                                     (mb_exists mb - (page - 1) * pageSize)) of
           Inl e \<Rightarrow> Inl e
         | Inr messages \<Rightarrow>
             (case map_throwing messageToSummary (sortByUidDesc messages) of
                Inl e \<Rightarrow> Inl e
              | Inr emails \<Rightarrow>
                  Inr \<lparr> ler_total = mb_exists mb, ler_page = page, ler_pageSize = pageSize,
                        ler_emails = emails \<rparr>),
         [Connect, MailboxOpen mailbox True,
          FetchAll (SeqRange (max 1 (mb_exists mb - (page - 1) * pageSize - pageSize + 1))
                             (mb_exists mb - (page - 1) * pageSize))]))"
  using assms by (simp add: listEmails_body_def session_defs Let_def split: sum.splits)

lemma listEmails_body_result:
  assumes "fst (listEmails_body mailbox page pageSize c []) = Inr r"
  shows "(ler_emails r = [] \<and>
            snd (listEmails_body mailbox page pageSize c []) = [Connect, MailboxOpen mailbox True]) \<or>
         (\<exists>rng ms. c_fetchAll c rng = Inr ms \<and>
            snd (listEmails_body mailbox page pageSize c []) =
              [Connect, MailboxOpen mailbox True, FetchAll rng] \<and>
            map_throwing messageToSummary (sortByUidDesc ms) = Inr (ler_emails r))"
  using assms
  by (auto simp: listEmails_body_def session_defs Let_def split: sum.splits if_splits)

subsection \<open>The structure walkers\<close>

lemma nodeFilename_truthy:
  "truthy (nodeFilename node) \<longleftrightarrow>
     (case param (node_dispositionParameters node) ''filename'' of
        Some f \<Rightarrow> f \<noteq> []
      | None \<Rightarrow> truthy (param (node_parameters node) ''name''))"
  by (simp add: nodeFilename_def split: option.splits)

lemma collect_walk_children:
  "collect_walk n acc = acc @ map attachmentInfo (filter qualifies (preorder n))"
  "collect_children cs acc =
     acc @ map attachmentInfo (filter qualifies (concat (map preorder cs)))"
proof (induction n acc and cs acc rule: collect_walk_collect_children.induct)
  case (1 ty pt sz disp dps ps cns attachments)
  then show ?case
    by (cases cns) (auto simp: Let_def qualifies_def attachmentInfo_def nodeFilename_truthy)
next
  case (2 attachments)
  then show ?case by simp
next
  case (3 child cs attachments)
  then show ?case by simp
qed

lemma find_append:
  "find P (xs @ ys) = (case find P xs of None \<Rightarrow> find P ys | Some x \<Rightarrow> Some x)"
  by (induction xs) auto

lemma find_holds: "find P xs = Some x \<Longrightarrow> P x"
  by (induction xs) (auto split: if_splits)

lemma find_first_of_filter:
  "find P xs = (case filter P xs of [] \<Rightarrow> None | x # rest \<Rightarrow> Some x)"
  by (induction xs) auto

lemma find_walk_children:
  "find_walk type n = Option.bind (find (matches type) (preorder n)) node_part"
  "find_children type cs =
     Option.bind (find (matches type) (concat (map preorder cs))) node_part"
proof (induction type n and type cs rule: find_walk_find_children.induct)
  case (1 type ty pt sz disp dps ps cns)
  then show ?case
    by (cases cns) (auto simp: matches_def)
next
  case (2 type)
  then show ?case by simp
next
  case (3 type child cs)
  have found: "truthy (Option.bind (find (matches type) xs) node_part)
                 \<longleftrightarrow> find (matches type) xs \<noteq> None" for xs
    by (cases "find (matches type) xs") (auto dest: find_holds simp: matches_def)
  from 3 show ?case
    by (auto simp: Let_def find_append found split: option.splits)
qed

lemma fetchEmail_body_single_part:
  assumes conn: "c_connect c = Inr u"
    and opened: "c_mailboxOpen c mailbox True = Inr mb"
    and fetched: "c_fetchOne c uid = Inr (Some msg)"
    and noText: "\<not> truthy (findPart (msg_bodyStructure msg) ''text/plain'')"
    and noHtml: "\<not> truthy (findPart (msg_bodyStructure msg) ''text/html'')"
    and noChildren: "Option.bind (msg_bodyStructure msg) node_childNodes = None"
  shows "fetchEmail_body mailbox uid c [] =
     (case c_download c uid None of
        Inl e \<Rightarrow> Inl e
      | Inr chunks \<Rightarrow>
          (case dateString (msg_envelope msg) of
             Inl e \<Rightarrow> Inl e
           | Inr date \<Rightarrow>
               Inr \<lparr> fe_uid = msg_uid msg,
                     fe_date = Some date,
                     fe_from = formatAddresses (Option.bind (msg_envelope msg) env_from),
                     fe_to = formatAddresses (Option.bind (msg_envelope msg) env_to),
                     fe_cc = formatAddresses (Option.bind (msg_envelope msg) env_cc),
                     fe_subject = Option.bind (msg_envelope msg) env_subject,
                     fe_flags = (case msg_flags msg of Some fs \<Rightarrow> fs | None \<Rightarrow> []),
                     fe_textBody =
                       (if map_option node_type (msg_bodyStructure msg) = Some ''text/html''
                        then None else Some (concat chunks)),
                     fe_htmlBody =
                       (if map_option node_type (msg_bodyStructure msg) = Some ''text/html''
                        then Some (concat chunks) else None),
                     fe_attachments = collectAttachments (msg_bodyStructure msg) \<rparr>),
      [Connect, MailboxOpen mailbox True, FetchOne uid, Download uid None])"
  using assms
  by (auto simp: fetchEmail_body_def downloadString_def session_defs Let_def split: sum.splits)

lemma fetchEmail_body_date:
  assumes "fst (fetchEmail_body mailbox uid c []) = Inr r"
  shows "\<exists>msg d. c_fetchOne c uid = Inr (Some msg)
           \<and> dateString (msg_envelope msg) = Inr d \<and> fe_date r = Some d"
  using assms
  by (auto simp: fetchEmail_body_def downloadString_def session_defs Let_def
      split: sum.splits option.splits if_splits prod.splits)

lemma dateString_cases:
  assumes "dateString envelope = Inr d"
  shows "(\<forall>v iso. Option.bind envelope env_date = Some v \<and> toISOString v = Inr iso \<longrightarrow> d = iso)
       \<and> (Option.bind envelope env_date = None \<longrightarrow> d = ''undefined'')"
  using assms by (auto simp: dateString_def split: option.splits)

lemma searchEmails_body_found:
  assumes conn: "c_connect c = Inr u"
    and opened: "c_mailboxOpen c mailbox True = Inr mb"
    and found: "c_search c (buildQuery criteria) = Inr (Some uids)"
    and nonempty: "uids \<noteq> []"
  shows "searchEmails_body mailbox criteria limit c [] =
     (case c_fetchAll c (UidSet (slice uids (- limit))) of
        Inl e \<Rightarrow> Inl e
      | Inr messages \<Rightarrow> map_throwing messageToSummary (sortByUidDesc messages),
      [Connect, MailboxOpen mailbox True, Search (buildQuery criteria),
       FetchAll (UidSet (slice uids (- limit)))])"
  using assms
  by (auto simp: searchEmails_body_def session_defs Let_def split: sum.splits)

lemma searchEmails_body_result:
  assumes "fst (searchEmails_body mailbox criteria limit c []) = Inr es"
  shows "es = [] \<or> (\<exists>ms. map_throwing messageToSummary (sortByUidDesc ms) = Inr es)"
  using assms
  by (auto simp: searchEmails_body_def session_defs Let_def
      split: sum.splits option.splits if_splits)

lemma slice_last:
  assumes "1 \<le> limit"
  shows "slice uids (- limit) = drop (length uids - nat limit) uids"
proof -
  have "nat (max (int (length uids) - limit) 0) = length uids - nat limit"
    using assms by linarith
  then show ?thesis
    using assms by (simp add: slice_def Let_def)
qed

lemma highest_suffix:
  fixes uids :: "int list"
  assumes "sorted_wrt (<) uids" and "u \<in> set (take k uids)" and "v \<in> set (drop k uids)"
  shows "u < v"
proof -
  have "sorted_wrt (<) (take k uids @ drop k uids)"
    using assms(1) by simp
  then show ?thesis
    using assms(2,3) unfolding sorted_wrt_append by blast
qed

lemma messageToSummary_date:
  assumes "messageToSummary msg = Inr s"
  shows "(\<exists>d. es_date s = Some d)
     \<and> (\<forall>v iso. Option.bind (msg_envelope msg) env_date = Some v \<and> toISOString v = Inr iso
            \<longrightarrow> es_date s = Some iso)
     \<and> (Option.bind (msg_envelope msg) env_date = None \<longrightarrow> es_date s = Some ''undefined'')"
proof -
  from assms obtain d where d: "dateString (msg_envelope msg) = Inr d"
    and s: "es_date s = Some d"
    by (auto simp: messageToSummary_def split: sum.splits)
  show ?thesis
    using dateString_cases [OF d] s by blast
qed

lemma listEmails_dates:
  assumes "fst (listEmails env c mailbox page pageSize) = Inr r" and "s \<in> set (ler_emails r)"
  shows "\<exists>d. es_date s = Some d"
proof -
  have "fst (listEmails_body mailbox page pageSize c []) = Inr r"
    using operation_result [of env c "listEmails_body mailbox page pageSize" r] assms(1)
    by (simp add: listEmails_def)
  from listEmails_body_result [OF this] assms(2)
  obtain ms where "map_throwing messageToSummary (sortByUidDesc ms) = Inr (ler_emails r)"
    by auto
  from map_throwing_date [OF this assms(2)] show ?thesis
    by simp
qed

lemma searchEmails_dates:
  assumes "fst (searchEmails env c mailbox criteria limit) = Inr es" and "s \<in> set es"
  shows "\<exists>d. es_date s = Some d"
proof -
  have "fst (searchEmails_body mailbox criteria limit c []) = Inr es"
    using operation_result [of env c "searchEmails_body mailbox criteria limit" es] assms(1)
    by (simp add: searchEmails_def)
  from searchEmails_body_result [OF this] assms(2)
  obtain ms where "map_throwing messageToSummary (sortByUidDesc ms) = Inr es"
    by auto
  from map_throwing_date [OF this assms(2)] show ?thesis
    by simp
qed

lemma fetchEmail_date:
  assumes "fst (fetchEmail env c mailbox uid) = Inr r"
  shows "\<exists>m. c_fetchOne c uid = Inr (Some m)
            \<and> (\<exists>d. fe_date r = Some d)
            \<and> (\<forall>v iso. Option.bind (msg_envelope m) env_date = Some v \<and> toISOString v = Inr iso
                  \<longrightarrow> fe_date r = Some iso)
            \<and> (Option.bind (msg_envelope m) env_date = None
                  \<longrightarrow> fe_date r = Some ''undefined'')"
proof -
  have "fst (fetchEmail_body mailbox uid c []) = Inr r"
    using operation_result [of env c "fetchEmail_body mailbox uid" r] assms
    by (simp add: fetchEmail_def)
  from fetchEmail_body_date [OF this] obtain m d where
    m: "c_fetchOne c uid = Inr (Some m)" and d: "dateString (msg_envelope m) = Inr d"
    and r: "fe_date r = Some d"
    by blast
  have rest: "(\<exists>d. fe_date r = Some d)
            \<and> (\<forall>v iso. Option.bind (msg_envelope m) env_date = Some v \<and> toISOString v = Inr iso
                  \<longrightarrow> fe_date r = Some iso)
            \<and> (Option.bind (msg_envelope m) env_date = None
                  \<longrightarrow> fe_date r = Some ''undefined'')"
    using dateString_cases [OF d] r by blast
  show ?thesis
    by (rule exI [of _ m]) (rule conjI [OF m rest])
qed

section \<open>Pagination of listEmails\<close>

text \<open>
  C1. The pagination inside \<open>listEmails\<close>: for a mailbox of \<open>N\<close> messages, a page
  \<open>P \<ge> 1\<close> and a page size \<open>S \<ge> 1\<close>, with \<open>end = N - (P - 1) * S\<close> and
  \<open>start = max 1 (end - S + 1)\<close>: when \<open>end < 1\<close> the page is beyond the data and the
  result is the empty page, with no fetch; otherwise exactly the window \<open>start:end\<close> is
  fetched and the outcome is what that fetch gives. The window lies inside \<open>1..N\<close> and
  holds \<open>S\<close> messages, or the \<open>end\<close> remaining ones when fewer than \<open>S\<close> are left: a
  short page, not an error. For \<open>N = 95\<close> and \<open>S = 20\<close>, page 1 fetches \<open>76:95\<close>, page 5
  fetches \<open>1:15\<close>, and page 6 is empty.
\<close>

theorem listEmails_page_window:
  assumes host: "truthy (env ''IMAP_HOST'')"
    and conn: "c_connect c = Inr u"
    and opened: "c_mailboxOpen c mailbox True = Inr mb"
    and total: "mb_exists mb = N"
    and page: "1 \<le> P" and size: "1 \<le> S"
  shows "let endSeq = N - (P - 1) * S; startSeq = max 1 (endSeq - S + 1) in
           (endSeq < 1 \<longrightarrow>
              listEmails env c mailbox P S =
                (Inr \<lparr> ler_total = N, ler_page = P, ler_pageSize = S, ler_emails = [] \<rparr>,
                 [Connect, MailboxOpen mailbox True, Logout]))
         \<and> (1 \<le> endSeq \<longrightarrow>
              listEmails env c mailbox P S =
                (case c_fetchAll c (SeqRange startSeq endSeq) of
                   Inl e \<Rightarrow> Inl e
                 | Inr messages \<Rightarrow>
                     (case map_throwing messageToSummary (sortByUidDesc messages) of
                        Inl e \<Rightarrow> Inl e
                      | Inr emails \<Rightarrow>
                          Inr \<lparr> ler_total = N, ler_page = P, ler_pageSize = S,
                                ler_emails = emails \<rparr>),
                 [Connect, MailboxOpen mailbox True, FetchAll (SeqRange startSeq endSeq), Logout])
              \<and> 1 \<le> startSeq \<and> startSeq \<le> endSeq \<and> endSeq \<le> N
              \<and> endSeq - startSeq + 1 = min S endSeq)
         \<and> (N = 95 \<and> S = 20 \<and> P = 1 \<longrightarrow>
              snd (listEmails env c mailbox P S) =
                [Connect, MailboxOpen mailbox True, FetchAll (SeqRange 76 95), Logout])
         \<and> (N = 95 \<and> S = 20 \<and> P = 5 \<longrightarrow>
              snd (listEmails env c mailbox P S) =
                [Connect, MailboxOpen mailbox True, FetchAll (SeqRange 1 15), Logout])
         \<and> (N = 95 \<and> S = 20 \<and> P = 6 \<longrightarrow>
              listEmails env c mailbox P S =
                (Inr \<lparr> ler_total = 95, ler_page = 6, ler_pageSize = 20, ler_emails = [] \<rparr>,
                 [Connect, MailboxOpen mailbox True, Logout]))"
proof -
  have mono: "0 \<le> (P - 1) * S"
    using page size by simp
  show ?thesis
    using mono size
    by (auto simp: listEmails_def operation_ok [of env, OF host]
          listEmails_body_opened [OF conn opened] total Let_def split: sum.splits)
qed

theorem listEmails_page_window_witness:
  "snd (listEmails hosts_only example_client ''INBOX'' 1 20) =
     [Connect, MailboxOpen ''INBOX'' True, FetchAll (SeqRange 76 95), Logout]
   \<and> snd (listEmails hosts_only example_client ''INBOX'' 5 20) =
     [Connect, MailboxOpen ''INBOX'' True, FetchAll (SeqRange 1 15), Logout]
   \<and> listEmails hosts_only example_client ''INBOX'' 6 20 =
     (Inr \<lparr> ler_total = 95, ler_page = 6, ler_pageSize = 20, ler_emails = [] \<rparr>,
      [Connect, MailboxOpen ''INBOX'' True, Logout])"
proof -
  have host: "truthy (hosts_only ''IMAP_HOST'')"
    by (simp add: hosts_only_def)
  have conn: "c_connect example_client = Inr ()"
    by (simp add: example_client_def)
  have opened: "c_mailboxOpen example_client ''INBOX'' True = Inr \<lparr> mb_exists = 95 \<rparr>"
    by (simp add: example_client_def)
  have total: "mb_exists \<lparr> mb_exists = 95 \<rparr> = 95"
    by simp
  show ?thesis
    using listEmails_page_window [where env = hosts_only and P = 1 and S = 20,
        OF host conn opened total]
      listEmails_page_window [where env = hosts_only and P = 5 and S = 20,
        OF host conn opened total]
      listEmails_page_window [where env = hosts_only and P = 6 and S = 20,
        OF host conn opened total]
    by (simp add: Let_def)
qed

section \<open>The empty mailbox\<close>

text \<open>
  C9. When the opened mailbox reports a total of 0 messages, \<open>listEmails\<close> returns the
  empty page (\<open>total = 0\<close>, \<open>emails = []\<close>) for every page and page size, and the only
  calls made are connect, open and logout: no fetch.
\<close>

theorem listEmails_empty_mailbox:
  assumes host: "truthy (env ''IMAP_HOST'')"
    and conn: "c_connect c = Inr u"
    and opened: "c_mailboxOpen c mailbox True = Inr mb"
    and total: "mb_exists mb = 0"
  shows "listEmails env c mailbox page pageSize =
           (Inr \<lparr> ler_total = 0, ler_page = page, ler_pageSize = pageSize, ler_emails = [] \<rparr>,
            [Connect, MailboxOpen mailbox True, Logout])"
  by (simp add: listEmails_def operation_ok [of env, OF host]
        listEmails_body_opened [OF conn opened] total)

theorem listEmails_empty_mailbox_witness:
  "listEmails hosts_only (example_client \<lparr> c_mailboxOpen := \<lambda>path readOnly. Inr \<lparr> mb_exists = 0 \<rparr> \<rparr>)
     ''INBOX'' 3 20 =
   (Inr \<lparr> ler_total = 0, ler_page = 3, ler_pageSize = 20, ler_emails = [] \<rparr>,
    [Connect, MailboxOpen ''INBOX'' True, Logout])"
proof -
  let ?c = "example_client \<lparr> c_mailboxOpen := \<lambda>path readOnly. Inr \<lparr> mb_exists = 0 \<rparr> \<rparr>"
  have host: "truthy (hosts_only ''IMAP_HOST'')"
    by (simp add: hosts_only_def)
  have conn: "c_connect ?c = Inr ()"
    by (simp add: example_client_def)
  have opened: "c_mailboxOpen ?c ''INBOX'' True = Inr \<lparr> mb_exists = 0 \<rparr>"
    by simp
  have total: "mb_exists \<lparr> mb_exists = 0 \<rparr> = 0"
    by simp
  show ?thesis
    using listEmails_empty_mailbox [where env = hosts_only and page = 3 and pageSize = 20,
        OF host conn opened total] .
qed

section \<open>Logout on every exit path\<close>

text \<open>
  C2. Every mailbox-session operation (\<open>listMailboxes\<close>, \<open>listEmails\<close>, \<open>fetchEmail\<close>,
  \<open>searchEmails\<close>, \<open>moveEmail\<close>, \<open>deleteEmail\<close>) ends with a call of \<open>logout\<close>, whatever
  the steps before it did (returned or threw), and whatever \<open>logout\<close> itself gives
  (\<open>l\<close> below, a value or a rejection) the outcome of the operation is the outcome of
  its steps, unchanged. The operations are served once the startup checks have passed,
  so \<open>IMAP_HOST\<close> is set and the client exists.
\<close>

theorem logout_on_every_exit:
  assumes host: "truthy (env ''IMAP_HOST'')"
  shows "listMailboxes env (c\<lparr>c_logout := l\<rparr>) =
           (fst (listMailboxes_body c []), snd (listMailboxes_body c []) @ [Logout])
       \<and> listEmails env (c\<lparr>c_logout := l\<rparr>) mailbox page pageSize =
           (fst (listEmails_body mailbox page pageSize c []),
            snd (listEmails_body mailbox page pageSize c []) @ [Logout])
       \<and> fetchEmail env (c\<lparr>c_logout := l\<rparr>) mailbox uid =
           (fst (fetchEmail_body mailbox uid c []),
            snd (fetchEmail_body mailbox uid c []) @ [Logout])
       \<and> searchEmails env (c\<lparr>c_logout := l\<rparr>) mailbox criteria limit =
           (fst (searchEmails_body mailbox criteria limit c []),
            snd (searchEmails_body mailbox criteria limit c []) @ [Logout])
       \<and> moveEmail env (c\<lparr>c_logout := l\<rparr>) mailbox uid destination =
           (fst (moveEmail_body mailbox uid destination c []),
            snd (moveEmail_body mailbox uid destination c []) @ [Logout])
       \<and> deleteEmail env (c\<lparr>c_logout := l\<rparr>) mailbox uid =
           (fst (deleteEmail_body mailbox uid c []),
            snd (deleteEmail_body mailbox uid c []) @ [Logout])"
  by (simp add: listMailboxes_def listEmails_def fetchEmail_def searchEmails_def
        moveEmail_def deleteEmail_def operation_ok [of env, OF host] body_ignores_logout)

text \<open>
  A refused connection with a failing logout: the error of \<open>connect\<close> is the outcome,
  and logout was still called. A successful delete with a failing logout: the result of
  the delete is the outcome.
\<close>

theorem logout_on_every_exit_witness:
  "listMailboxes hosts_only
     (example_client\<lparr>c_connect := Inl (Error ''ECONNREFUSED''),
                     c_logout := Inl (Error ''Connection not available'')\<rparr>) =
     (Inl (Error ''ECONNREFUSED''), [Connect, Logout])
   \<and> deleteEmail hosts_only
       (example_client\<lparr>c_logout := Inl (Error ''Connection not available'')\<rparr>) ''INBOX'' 7 =
     (Inr \<lparr> dr_uid = 7, dr_mailbox = ''INBOX'', dr_deleted = True \<rparr>,
      [Connect, MailboxOpen ''INBOX'' False, MessageDelete 7, Logout])"
proof -
  have host: "truthy (hosts_only ''IMAP_HOST'')"
    by (simp add: hosts_only_def)
  show ?thesis
    using logout_on_every_exit [where env = hosts_only
          and c = "example_client\<lparr>c_connect := Inl (Error ''ECONNREFUSED'')\<rparr>"
          and l = "Inl (Error ''Connection not available'')", OF host]
      logout_on_every_exit [where env = hosts_only and c = example_client
          and l = "Inl (Error ''Connection not available'')"
          and mailbox = "''INBOX''" and uid = 7, OF host]
    by (simp add: listMailboxes_body_def deleteEmail_body_def session_defs example_client_def)
qed

section \<open>Default ports\<close>

text \<open>
  C7. Configuration resolution, when the host is set. With no port variable the port is
  the default of the security mode: for IMAP 993 for \<open>ssl\<close> and 143 otherwise
  (\<open>starttls\<close>, \<open>none\<close>, and any other value: nothing is promoted); for SMTP 465 for
  \<open>ssl\<close>, 587 for \<open>starttls\<close>, 25 for \<open>none\<close>. An unset security variable means
  \<open>ssl\<close>: the connection is \<open>secure\<close> and the \<open>ssl\<close> default applies. A port variable
  that is set always decides the port, as \<open>parseInt\<close> reads it, whatever the security
  mode.
\<close>

theorem default_port_table:
  "(truthy (env ''IMAP_HOST'') \<longrightarrow>
      (\<exists>ic. getImapConfig env = Inr ic
         \<and> (env ''IMAP_PORT'' = None \<longrightarrow>
              (env ''IMAP_SECURITY'' = None \<longrightarrow> port ic = Some 993 \<and> secure ic)
            \<and> (env ''IMAP_SECURITY'' = Some ''ssl'' \<longrightarrow> port ic = Some 993)
            \<and> (env ''IMAP_SECURITY'' = Some ''starttls'' \<longrightarrow> port ic = Some 143)
            \<and> (env ''IMAP_SECURITY'' = Some ''none'' \<longrightarrow> port ic = Some 143)
            \<and> (\<forall>s. env ''IMAP_SECURITY'' = Some s \<and> s \<noteq> ''ssl'' \<longrightarrow> port ic = Some 143))
         \<and> (\<forall>p. env ''IMAP_PORT'' = Some p \<longrightarrow> port ic = parseInt p)))
   \<and> (truthy (env ''SMTP_HOST'') \<longrightarrow>
      (\<exists>sc. getSmtpConfig env = Inr sc
         \<and> (env ''SMTP_PORT'' = None \<longrightarrow>
              (env ''SMTP_SECURITY'' = None \<longrightarrow> port sc = Some 465 \<and> secure sc)
            \<and> (env ''SMTP_SECURITY'' = Some ''ssl'' \<longrightarrow> port sc = Some 465)
            \<and> (env ''SMTP_SECURITY'' = Some ''starttls'' \<longrightarrow> port sc = Some 587)
            \<and> (env ''SMTP_SECURITY'' = Some ''none'' \<longrightarrow> port sc = Some 25))
         \<and> (\<forall>p. env ''SMTP_PORT'' = Some p \<longrightarrow> port sc = parseInt p)))"
proof (intro conjI impI)
  assume "truthy (env ''IMAP_HOST'')"
  from getImapConfig_port [of env, OF this] obtain ic where
    "getImapConfig env = Inr ic"
    "port ic = parseInt (nullish (env ''IMAP_PORT'')
       (String_of_int (if nullish (env ''IMAP_SECURITY'') ''ssl'' = ''ssl'' then 993 else 143)))"
    "secure ic = (nullish (env ''IMAP_SECURITY'') ''ssl'' = ''ssl'')"
    by blast
  then show "\<exists>ic. getImapConfig env = Inr ic
         \<and> (env ''IMAP_PORT'' = None \<longrightarrow>
              (env ''IMAP_SECURITY'' = None \<longrightarrow> port ic = Some 993 \<and> secure ic)
            \<and> (env ''IMAP_SECURITY'' = Some ''ssl'' \<longrightarrow> port ic = Some 993)
            \<and> (env ''IMAP_SECURITY'' = Some ''starttls'' \<longrightarrow> port ic = Some 143)
            \<and> (env ''IMAP_SECURITY'' = Some ''none'' \<longrightarrow> port ic = Some 143)
            \<and> (\<forall>s. env ''IMAP_SECURITY'' = Some s \<and> s \<noteq> ''ssl'' \<longrightarrow> port ic = Some 143))
         \<and> (\<forall>p. env ''IMAP_PORT'' = Some p \<longrightarrow> port ic = parseInt p)"
    by (auto simp: parseInt_default_ports)
next
  assume "truthy (env ''SMTP_HOST'')"
  from getSmtpConfig_port [of env, OF this] obtain sc where
    "getSmtpConfig env = Inr sc"
    "port sc = parseInt (nullish (env ''SMTP_PORT'')
       (String_of_int (if nullish (env ''SMTP_SECURITY'') ''ssl'' = ''ssl'' then 465
                       else if nullish (env ''SMTP_SECURITY'') ''ssl'' = ''starttls'' then 587
                       else 25)))"
    "secure sc = (nullish (env ''SMTP_SECURITY'') ''ssl'' = ''ssl'')"
    by blast
  then show "\<exists>sc. getSmtpConfig env = Inr sc
         \<and> (env ''SMTP_PORT'' = None \<longrightarrow>
              (env ''SMTP_SECURITY'' = None \<longrightarrow> port sc = Some 465 \<and> secure sc)
            \<and> (env ''SMTP_SECURITY'' = Some ''ssl'' \<longrightarrow> port sc = Some 465)
            \<and> (env ''SMTP_SECURITY'' = Some ''starttls'' \<longrightarrow> port sc = Some 587)
            \<and> (env ''SMTP_SECURITY'' = Some ''none'' \<longrightarrow> port sc = Some 25))
         \<and> (\<forall>p. env ''SMTP_PORT'' = Some p \<longrightarrow> port sc = parseInt p)"
    by (auto simp: parseInt_default_ports)
qed

text \<open>
  The table at four environments: no security variable, \<open>starttls\<close>, \<open>none\<close>, and the
  explicit ports 1993 and 2525 under the default mode.
\<close>

theorem default_port_table_witness:
  "(\<exists>ic sc. getImapConfig hosts_only = Inr ic \<and> getSmtpConfig hosts_only = Inr sc
      \<and> port ic = Some 993 \<and> port sc = Some 465)
   \<and> (\<exists>ic sc. getImapConfig with_starttls = Inr ic \<and> getSmtpConfig with_starttls = Inr sc
      \<and> port ic = Some 143 \<and> port sc = Some 587)
   \<and> (\<exists>ic sc. getImapConfig with_none = Inr ic \<and> getSmtpConfig with_none = Inr sc
      \<and> port ic = Some 143 \<and> port sc = Some 25)
   \<and> (\<exists>ic sc. getImapConfig with_ports = Inr ic \<and> getSmtpConfig with_ports = Inr sc
      \<and> port ic = Some 1993 \<and> port sc = Some 2525)"
proof -
  have explicit: "parseInt ''1993'' = Some 1993" "parseInt ''2525'' = Some 2525"
    by code_simp+
  show ?thesis
    using default_port_table [of hosts_only] default_port_table [of with_starttls]
      default_port_table [of with_none] default_port_table [of with_ports]
    by (auto simp: hosts_only_def with_starttls_def with_none_def with_ports_def explicit)
qed

section \<open>Order of the listed emails\<close>

text \<open>
  C8. Whenever \<open>listEmails\<close> returns a result, its \<open>emails\<close> are sorted by UID,
  descending, for every client, that is, whatever messages the fetch delivers and in
  whatever order; and the UIDs listed are those of the messages the fetch delivered.
\<close>

theorem listEmails_sorted_desc:
  assumes "fst (listEmails env c mailbox page pageSize) = Inr r"
  shows "sorted_wrt (\<lambda>a b. b \<le> a) (map es_uid (ler_emails r))
       \<and> (\<forall>rng ms. FetchAll rng \<in> set (snd (listEmails env c mailbox page pageSize))
              \<and> c_fetchAll c rng = Inr ms
            \<longrightarrow> mset (map es_uid (ler_emails r)) = mset (map msg_uid ms))"
proof -
  have res: "fst (listEmails_body mailbox page pageSize c []) = Inr r"
    and calls: "snd (listEmails env c mailbox page pageSize) =
                  snd (listEmails_body mailbox page pageSize c []) @ [Logout]"
    using operation_result [of env c "listEmails_body mailbox page pageSize" r] assms
    by (simp_all add: listEmails_def)
  from listEmails_body_result [OF res]
  show ?thesis
  proof
    assume "ler_emails r = [] \<and>
            snd (listEmails_body mailbox page pageSize c []) = [Connect, MailboxOpen mailbox True]"
    then show ?thesis
      using calls by auto
  next
    assume "\<exists>rng ms. c_fetchAll c rng = Inr ms \<and>
              snd (listEmails_body mailbox page pageSize c []) =
                [Connect, MailboxOpen mailbox True, FetchAll rng] \<and>
              map_throwing messageToSummary (sortByUidDesc ms) = Inr (ler_emails r)"
    then obtain rng ms where fetched: "c_fetchAll c rng = Inr ms"
      and body_calls: "snd (listEmails_body mailbox page pageSize c []) =
                         [Connect, MailboxOpen mailbox True, FetchAll rng]"
      and mapped: "map_throwing messageToSummary (sortByUidDesc ms) = Inr (ler_emails r)"
      by blast
    show ?thesis
      using summaries_sorted [OF mapped] summaries_mset [OF mapped] fetched body_calls calls
      by auto
  qed
qed

text \<open>The fetch of the example client delivers UIDs 7, 9, 8; the page lists 9, 8, 7.\<close>

theorem listEmails_sorted_desc_witness:
  "fst (listEmails hosts_only example_client ''INBOX'' 1 20) =
     Inr \<lparr> ler_total = 95, ler_page = 1, ler_pageSize = 20,
           ler_emails = [bare_summary 9, bare_summary 8, bare_summary 7] \<rparr>
   \<and> sorted_wrt (\<lambda>a b. b \<le> a) (map es_uid [bare_summary 9, bare_summary 8, bare_summary 7])"
proof -
  have host: "truthy (hosts_only ''IMAP_HOST'')"
    by (simp add: hosts_only_def)
  have sorted3:
    "sortByUidDesc [bare_message 7, bare_message 9, bare_message 8] =
       [bare_message 9, bare_message 8, bare_message 7]"
    by (simp add: sortByUidDesc_def bare_message_def)
  have r: "fst (listEmails hosts_only example_client ''INBOX'' 1 20) =
     Inr \<lparr> ler_total = 95, ler_page = 1, ler_pageSize = 20,
           ler_emails = [bare_summary 9, bare_summary 8, bare_summary 7] \<rparr>"
    by (simp add: listEmails_def operation_ok [of hosts_only, OF host] listEmails_body_def
          session_defs example_client_def sorted3 messageToSummary_bare)
  show ?thesis
    using listEmails_sorted_desc [OF r] r by simp
qed

section \<open>Attachments\<close>

text \<open>
  C4, as the specification states it, fails: a node is not emitted exactly when its
  disposition is \<open>attachment\<close>, or \<open>inline\<close> with a filename in the disposition
  parameters or in the content-type \<open>name\<close> parameter. The inline image with an empty
  \<open>filename\<close> disposition parameter and the content-type name \<open>logo.png\<close> carries a
  filename in its \<open>name\<close> parameter, and \<open>collectAttachments\<close> leaves it out: the empty
  \<open>filename\<close> is not \<open>undefined\<close>, so \<open>??\<close> never looks at \<open>name\<close>.
\<close>

theorem collectAttachments_name_counterexample:
  "spec_qualifies shadowed_name \<and> collectAttachments (Some shadowed_name) = []"
  by (simp add: shadowed_name_def spec_qualifies_def collectAttachments_def nodeFilename_def)

text \<open>
  C4, amended. For every structure tree, \<open>collectAttachments\<close> emits exactly the nodes
  whose disposition is \<open>attachment\<close> (with or without a filename), or whose disposition
  is \<open>inline\<close> and whose filename is not empty, the filename being the \<open>filename\<close>
  disposition parameter whenever that parameter is present (even when empty) and the
  content-type \<open>name\<close> parameter only otherwise; inline nodes without such a filename
  and nodes with any other or no disposition are left out. The entries come in document
  order (a node before its children, children from first to last), one entry per
  qualifying node, whatever the size or type. With no structure the result is empty.
\<close>

theorem collectAttachments_document_order:
  "collectAttachments (Some tree) = map attachmentInfo (filter qualifies (preorder tree))
   \<and> collectAttachments None = []"
  by (simp add: collectAttachments_def collect_walk_children)

section \<open>Finding a part by content type\<close>

text \<open>
  C5. For every structure tree and content type, \<open>findPart\<close> returns the part
  identifier of the first node, in document order (depth-first, pre-order), whose
  content type is the wanted one and which carries a part identifier, and \<open>undefined\<close>
  when there is no such node or no structure. On the tree \<open>multipart/alternative\<close> with
  the children \<open>text/plain\<close> (part 1) and \<open>text/html\<close> (part 2), the search for
  \<open>text/plain\<close> gives 1 and the search for \<open>text/html\<close> gives 2.
\<close>

theorem findPart_first_in_document_order:
  "findPart (Some tree) type =
     (case filter (matches type) (preorder tree) of
        [] \<Rightarrow> None
      | node # rest \<Rightarrow> node_part node)
   \<and> findPart None type = None
   \<and> findPart (Some alternative) ''text/plain'' = Some ''1''
   \<and> findPart (Some alternative) ''text/html'' = Some ''2''"
proof -
  have "findPart (Some tree) type =
          (case filter (matches type) (preorder tree) of
             [] \<Rightarrow> None
           | node # rest \<Rightarrow> node_part node)"
    by (simp add: findPart_def find_walk_children find_first_of_filter split: list.splits)
  moreover have "findPart None type = None"
    by (simp add: findPart_def)
  moreover have "findPart (Some alternative) ''text/plain'' = Some ''1''"
    by (simp add: findPart_def alternative_def)
  moreover have "findPart (Some alternative) ''text/html'' = Some ''2''"
    by (simp add: findPart_def alternative_def)
  ultimately show ?thesis
    by blast
qed

section \<open>The body of a single-part message\<close>

text \<open>
  C6. In \<open>fetchEmail\<close>, when the message is found, neither a \<open>text/plain\<close> nor a
  \<open>text/html\<close> part is located and the body structure has no child parts (no
  \<open>childNodes\<close>), the whole message is downloaded, in one download and no other, and
  its text goes to exactly one of the two bodies: to \<open>htmlBody\<close> when the top-level
  content type is \<open>text/html\<close>, \<open>textBody\<close> staying unset, and to \<open>textBody\<close>
  otherwise, \<open>htmlBody\<close> staying unset.
\<close>

theorem fetchEmail_single_part:
  assumes host: "truthy (env ''IMAP_HOST'')"
    and conn: "c_connect c = Inr u"
    and opened: "c_mailboxOpen c mailbox True = Inr mb"
    and fetched: "c_fetchOne c uid = Inr (Some msg)"
    and noText: "\<not> truthy (findPart (msg_bodyStructure msg) ''text/plain'')"
    and noHtml: "\<not> truthy (findPart (msg_bodyStructure msg) ''text/html'')"
    and noChildren: "Option.bind (msg_bodyStructure msg) node_childNodes = None"
  shows "snd (fetchEmail env c mailbox uid) =
           [Connect, MailboxOpen mailbox True, FetchOne uid, Download uid None, Logout]
       \<and> (\<forall>r. fst (fetchEmail env c mailbox uid) = Inr r \<longrightarrow>
            (\<exists>chunks. c_download c uid None = Inr chunks
               \<and> (if map_option node_type (msg_bodyStructure msg) = Some ''text/html''
                   then fe_htmlBody r = Some (concat chunks) \<and> fe_textBody r = None
                   else fe_textBody r = Some (concat chunks) \<and> fe_htmlBody r = None)))
       \<and> (\<forall>chunks d. c_download c uid None = Inr chunks
              \<and> dateString (msg_envelope msg) = Inr d
            \<longrightarrow> (\<exists>r. fst (fetchEmail env c mailbox uid) = Inr r))"
proof -
  note body = fetchEmail_body_single_part [OF conn opened fetched noText noHtml noChildren]
  have run: "fetchEmail env c mailbox uid =
      (fst (fetchEmail_body mailbox uid c []), snd (fetchEmail_body mailbox uid c []) @ [Logout])"
    by (simp add: fetchEmail_def operation_ok [of env, OF host])
  have calls: "snd (fetchEmail env c mailbox uid) =
           [Connect, MailboxOpen mailbox True, FetchOne uid, Download uid None, Logout]"
    unfolding run body by simp
  have outcome: "\<exists>chunks. c_download c uid None = Inr chunks
               \<and> (if map_option node_type (msg_bodyStructure msg) = Some ''text/html''
                   then fe_htmlBody r = Some (concat chunks) \<and> fe_textBody r = None
                   else fe_textBody r = Some (concat chunks) \<and> fe_htmlBody r = None)"
    if r: "fst (fetchEmail env c mailbox uid) = Inr r" for r
  proof (cases "c_download c uid None")
    case (Inl e)
    with r show ?thesis
      unfolding run body by simp
  next
    case (Inr chunks)
    show ?thesis
    proof (cases "dateString (msg_envelope msg)")
      case (Inl e)
      with r Inr show ?thesis
        unfolding run body by simp
    next
      case d: (Inr date)
      with r Inr show ?thesis
        unfolding run body by auto
    qed
  qed
  have returns: "\<exists>r. fst (fetchEmail env c mailbox uid) = Inr r"
    if "c_download c uid None = Inr chunks" and "dateString (msg_envelope msg) = Inr d"
    for chunks d
    using that unfolding run body by simp
  show ?thesis
    using calls outcome returns by blast
qed

text \<open>
  The single-part HTML message of the example client: the download of the whole message
  fills \<open>htmlBody\<close>.
\<close>

theorem fetchEmail_single_part_witness:
  "snd (fetchEmail hosts_only example_client ''INBOX'' 42) =
     [Connect, MailboxOpen ''INBOX'' True, FetchOne 42, Download 42 None, Logout]
   \<and> (\<exists>r. fst (fetchEmail hosts_only example_client ''INBOX'' 42) = Inr r
        \<and> fe_htmlBody r = Some ''<p>Hello</p>'' \<and> fe_textBody r = None)"
proof -
  have host: "truthy (hosts_only ''IMAP_HOST'')"
    by (simp add: hosts_only_def)
  have conn: "c_connect example_client = Inr ()"
    by (simp add: example_client_def)
  have opened: "c_mailboxOpen example_client ''INBOX'' True = Inr \<lparr> mb_exists = 95 \<rparr>"
    by (simp add: example_client_def)
  have fetched: "c_fetchOne example_client 42 = Inr (Some html_message)"
    by (simp add: example_client_def)
  have noText: "\<not> truthy (findPart (msg_bodyStructure html_message) ''text/plain'')"
    by (simp add: html_message_def findPart_def)
  have noHtml: "\<not> truthy (findPart (msg_bodyStructure html_message) ''text/html'')"
    by (simp add: html_message_def findPart_def)
  have noChildren: "Option.bind (msg_bodyStructure html_message) node_childNodes = None"
    by (simp add: html_message_def)
  have download: "c_download example_client 42 None = Inr [''<p>Hello'', ''</p>'']"
    by (simp add: example_client_def)
  have date: "dateString (msg_envelope html_message) = Inr ''2024-05-06T07:08:09.000Z''"
    by (simp add: html_message_def dateString_def)
  have html: "map_option node_type (msg_bodyStructure html_message) = Some ''text/html''"
    by (simp add: html_message_def)
  show ?thesis
    using fetchEmail_single_part [where env = hosts_only,
        OF host conn opened fetched noText noHtml noChildren] download date html
    by auto
qed

section \<open>The date of a summary\<close>

text \<open>
  C10. The \<open>date\<close> of every summary or detail that is returned is a string, never
  absent: when the envelope carries a date it is the rendering that \<open>toISOString\<close>
  gives for it, and when the envelope or its date is missing it is the string
  \<open>undefined\<close>. This holds for \<open>messageToSummary\<close>, hence for every entry of the lists
  that \<open>listEmails\<close> and \<open>searchEmails\<close> return, and for the detail returned by
  \<open>fetchEmail\<close>. A summary is returned whenever the date is missing or has a valid time
  value.
\<close>

theorem date_is_always_a_string:
  "(\<forall>s. messageToSummary msg = Inr s \<longrightarrow>
       (\<exists>d. es_date s = Some d)
     \<and> (\<forall>v iso. Option.bind (msg_envelope msg) env_date = Some v \<and> toISOString v = Inr iso
            \<longrightarrow> es_date s = Some iso)
     \<and> (Option.bind (msg_envelope msg) env_date = None \<longrightarrow> es_date s = Some ''undefined''))
   \<and> (Option.bind (msg_envelope msg) env_date \<noteq> Some InvalidDate
        \<longrightarrow> (\<exists>s. messageToSummary msg = Inr s))
   \<and> (\<forall>r. fst (listEmails env c mailbox page pageSize) = Inr r \<longrightarrow>
         (\<forall>s \<in> set (ler_emails r). \<exists>d. es_date s = Some d))
   \<and> (\<forall>es. fst (searchEmails env c mailbox criteria limit) = Inr es \<longrightarrow>
         (\<forall>s \<in> set es. \<exists>d. es_date s = Some d))
   \<and> (\<forall>r. fst (fetchEmail env c mailbox uid) = Inr r \<longrightarrow>
         (\<exists>m. c_fetchOne c uid = Inr (Some m)
            \<and> (\<exists>d. fe_date r = Some d)
            \<and> (\<forall>v iso. Option.bind (msg_envelope m) env_date = Some v \<and> toISOString v = Inr iso
                  \<longrightarrow> fe_date r = Some iso)
            \<and> (Option.bind (msg_envelope m) env_date = None
                  \<longrightarrow> fe_date r = Some ''undefined'')))"
proof (intro conjI)
  show "\<forall>s. messageToSummary msg = Inr s \<longrightarrow>
       (\<exists>d. es_date s = Some d)
     \<and> (\<forall>v iso. Option.bind (msg_envelope msg) env_date = Some v \<and> toISOString v = Inr iso
            \<longrightarrow> es_date s = Some iso)
     \<and> (Option.bind (msg_envelope msg) env_date = None \<longrightarrow> es_date s = Some ''undefined'')"
    using messageToSummary_date [of msg] by blast
  show "Option.bind (msg_envelope msg) env_date \<noteq> Some InvalidDate
          \<longrightarrow> (\<exists>s. messageToSummary msg = Inr s)"
    using messageToSummary_returns [of msg] by blast
  show "\<forall>r. fst (listEmails env c mailbox page pageSize) = Inr r \<longrightarrow>
         (\<forall>s \<in> set (ler_emails r). \<exists>d. es_date s = Some d)"
    using listEmails_dates [of env c mailbox page pageSize] by blast
  show "\<forall>es. fst (searchEmails env c mailbox criteria limit) = Inr es \<longrightarrow>
         (\<forall>s \<in> set es. \<exists>d. es_date s = Some d)"
    using searchEmails_dates [of env c mailbox criteria limit] by blast
  show "\<forall>r. fst (fetchEmail env c mailbox uid) = Inr r \<longrightarrow>
         (\<exists>m. c_fetchOne c uid = Inr (Some m)
            \<and> (\<exists>d. fe_date r = Some d)
            \<and> (\<forall>v iso. Option.bind (msg_envelope m) env_date = Some v \<and> toISOString v = Inr iso
                  \<longrightarrow> fe_date r = Some iso)
            \<and> (Option.bind (msg_envelope m) env_date = None
                  \<longrightarrow> fe_date r = Some ''undefined''))"
    using fetchEmail_date [of env c mailbox uid] by blast
qed

text \<open>
  The summary of the dated example message carries the rendering of its date, and the
  summary of a message without envelope carries \<open>undefined\<close>.
\<close>

theorem date_is_always_a_string_witness:
  "(\<exists>s. messageToSummary html_message = Inr s
       \<and> es_date s = Some ''2024-05-06T07:08:09.000Z'')
   \<and> (\<exists>s. messageToSummary (bare_message 7) = Inr s \<and> es_date s = Some ''undefined'')"
proof -
  have dated: "Option.bind (msg_envelope html_message) env_date
                 = Some (Date ''2024-05-06T07:08:09.000Z'')"
    by (simp add: html_message_def)
  have rendering: "toISOString (Date ''2024-05-06T07:08:09.000Z'')
                     = Inr ''2024-05-06T07:08:09.000Z''"
    by simp
  have undated: "Option.bind (msg_envelope (bare_message 7)) env_date = None"
    by (simp add: bare_message_def)
  note dated_case = date_is_always_a_string [where msg = html_message and env = hosts_only
      and c = example_client and mailbox = "''INBOX''" and page = 1 and pageSize = 20
      and criteria = no_criteria and limit = 50 and uid = 42]
  note undated_case = date_is_always_a_string [where msg = "bare_message 7" and env = hosts_only
      and c = example_client and mailbox = "''INBOX''" and page = 1 and pageSize = 20
      and criteria = no_criteria and limit = 50 and uid = 42]
  have first: "\<exists>s. messageToSummary html_message = Inr s
          \<and> es_date s = Some ''2024-05-06T07:08:09.000Z''"
    using dated_case dated rendering by auto
  have second: "\<exists>s. messageToSummary (bare_message 7) = Inr s \<and> es_date s = Some ''undefined''"
    using undated_case undated by auto
  from first second show ?thesis
    by blast
qed


section \<open>The most recent matches of a search\<close>

text \<open>
  C3. When the search gives a non-empty list of UIDs and the limit is at least 1 (the
  caller passes 1 to 200), \<open>searchEmails\<close> keeps exactly the last \<open>limit\<close> UIDs of the
  list (all of them when there are fewer) and fetches those and no others. When the
  list is ascending these are the highest UIDs: every UID left out is below every UID
  kept. Whatever the fetch delivers, a returned list of summaries is sorted by UID,
  descending; and when the fetch delivers the messages asked for, the summaries returned
  are those of the kept UIDs from the highest down. With a limit of 50 and 120 matches,
  the UIDs kept are the last 50.
\<close>

theorem searchEmails_most_recent:
  assumes host: "truthy (env ''IMAP_HOST'')"
    and conn: "c_connect c = Inr u"
    and opened: "c_mailboxOpen c mailbox True = Inr mb"
    and found: "c_search c (buildQuery criteria) = Inr (Some uids)"
    and nonempty: "uids \<noteq> []"
    and limit: "1 \<le> limit"
  shows "let selected = drop (length uids - nat limit) uids in
           snd (searchEmails env c mailbox criteria limit) =
             [Connect, MailboxOpen mailbox True, Search (buildQuery criteria),
              FetchAll (UidSet selected), Logout]
         \<and> length selected = min (nat limit) (length uids)
         \<and> (sorted_wrt (<) uids \<longrightarrow>
              (\<forall>u \<in> set (take (length uids - nat limit) uids). \<forall>v \<in> set selected. u < v))
         \<and> (\<forall>es. fst (searchEmails env c mailbox criteria limit) = Inr es \<longrightarrow>
              sorted_wrt (\<lambda>a b. b \<le> a) (map es_uid es))
         \<and> (\<forall>ms. c_fetchAll c (UidSet selected) = Inr ms
                \<and> mset (map msg_uid ms) = mset selected
                \<and> sorted uids
                \<and> (\<forall>m \<in> set ms. Option.bind (msg_envelope m) env_date \<noteq> Some InvalidDate)
              \<longrightarrow> (\<exists>es. fst (searchEmails env c mailbox criteria limit) = Inr es
                         \<and> map es_uid es = rev selected))
         \<and> (limit = 50 \<and> length uids = 120 \<longrightarrow>
              selected = drop 70 uids \<and> length selected = 50)"
proof -
  define selected where "selected = drop (length uids - nat limit) uids"
  have sel: "slice uids (- limit) = selected"
    using slice_last [OF limit] by (simp add: selected_def)
  note body = searchEmails_body_found [OF conn opened found nonempty, of limit, unfolded sel]
  have run: "searchEmails env c mailbox criteria limit =
      (fst (searchEmails_body mailbox criteria limit c []),
       snd (searchEmails_body mailbox criteria limit c []) @ [Logout])"
    by (simp add: searchEmails_def operation_ok [of env, OF host])
  have calls: "snd (searchEmails env c mailbox criteria limit) =
             [Connect, MailboxOpen mailbox True, Search (buildQuery criteria),
              FetchAll (UidSet selected), Logout]"
    unfolding run body by simp
  have len: "length selected = min (nat limit) (length uids)"
    using limit by (simp add: selected_def)
  have highest: "\<forall>u \<in> set (take (length uids - nat limit) uids). \<forall>v \<in> set selected. u < v"
    if "sorted_wrt (<) uids"
    using highest_suffix [OF that] by (simp add: selected_def)
  have desc: "sorted_wrt (\<lambda>a b. b \<le> a) (map es_uid es)"
    if "fst (searchEmails env c mailbox criteria limit) = Inr es" for es
  proof -
    from that have "fst (searchEmails_body mailbox criteria limit c []) = Inr es"
      unfolding run by simp
    from searchEmails_body_result [OF this] show ?thesis
      using summaries_sorted by auto
  qed
  have delivered: "\<exists>es. fst (searchEmails env c mailbox criteria limit) = Inr es
                         \<and> map es_uid es = rev selected"
    if fetched: "c_fetchAll c (UidSet selected) = Inr ms"
      and same: "mset (map msg_uid ms) = mset selected"
      and ascending: "sorted uids"
      and dates: "\<forall>m \<in> set ms. Option.bind (msg_envelope m) env_date \<noteq> Some InvalidDate"
    for ms
  proof -
    have "set (sortByUidDesc ms) = set ms"
      by (simp add: sortByUidDesc_def)
    with dates have "\<forall>m \<in> set (sortByUidDesc ms). \<exists>s. messageToSummary m = Inr s"
      using messageToSummary_returns by blast
    from map_throwing_returns [OF this] obtain es
      where es: "map_throwing messageToSummary (sortByUidDesc ms) = Inr es"
      by blast
    have result: "fst (searchEmails env c mailbox criteria limit) = Inr es"
      unfolding run body using fetched es by simp
    have "sorted selected"
      using ascending by (simp add: selected_def sorted_wrt_drop)
    moreover have "mset (map es_uid es) = mset selected"
      using summaries_mset [OF es] same by simp
    ultimately have "map es_uid es = rev selected"
      using descending_unique [OF summaries_sorted [OF es]] by blast
    with result show ?thesis
      by blast
  qed
  have example: "selected = drop 70 uids \<and> length selected = 50"
    if "limit = 50 \<and> length uids = 120"
    using that by (simp add: selected_def)
  show ?thesis
    unfolding Let_def selected_def [symmetric]
    using calls len highest desc delivered example by blast
qed

text \<open>
  The example client finds the UIDs 1 to 120 and delivers the messages asked for; with
  a limit of 50 the summaries returned are those of 120 down to 71.
\<close>

theorem searchEmails_most_recent_witness:
  "snd (searchEmails hosts_only example_client ''INBOX'' no_criteria 50) =
     [Connect, MailboxOpen ''INBOX'' True, Search (buildQuery no_criteria),
      FetchAll (UidSet [71..120]), Logout]
   \<and> (\<exists>es. fst (searchEmails hosts_only example_client ''INBOX'' no_criteria 50) = Inr es
         \<and> map es_uid es = rev [71..120])"
proof -
  have host: "truthy (hosts_only ''IMAP_HOST'')"
    by (simp add: hosts_only_def)
  have conn: "c_connect example_client = Inr ()"
    by (simp add: example_client_def)
  have opened: "c_mailboxOpen example_client ''INBOX'' True = Inr \<lparr> mb_exists = 95 \<rparr>"
    by (simp add: example_client_def)
  have found: "c_search example_client (buildQuery no_criteria) = Inr (Some [1..120])"
    by (simp add: example_client_def)
  have nonempty: "[1..120] \<noteq> ([] :: int list)"
    by simp
  have limit: "(1::int) \<le> 50"
    by simp
  have split: "[1..120] = [1..70] @ [71..(120::int)]"
    using upto_split1 [of 1 71 120] by simp
  have kept: "drop (length [1..(120::int)] - nat 50) [1..120] = [71..(120::int)]"
    by (simp add: split)
  have fetched: "c_fetchAll example_client (UidSet [71..120]) = Inr (map bare_message [71..120])"
    by (simp add: example_client_def)
  have same: "mset (map msg_uid (map bare_message [71..120])) = mset [71..(120::int)]"
    by (simp add: bare_message_def o_def)
  have ascending: "sorted [1..(120::int)]"
    by simp
  have dates: "\<forall>m \<in> set (map bare_message [71..120]).
                 Option.bind (msg_envelope m) env_date \<noteq> Some InvalidDate"
    by (simp add: bare_message_def)
  show ?thesis
    using searchEmails_most_recent [where env = hosts_only and limit = 50,
        OF host conn opened found nonempty limit]
      fetched same ascending dates
    unfolding Let_def kept
    by blast
qed

end
